theory Spec2Isabelle
  imports Complex_Main "HOL-Library.AList" "HOL-Library.Monad_Syntax" "HOL-Library.Sublist"
begin

section \<open>Text normalisation (extraction/text.py)\<close>

text \<open>
  A Python \<open>str\<close> is a sequence of Unicode code points, so text is a list of
  naturals.  ASCII literals of the source are written with \<open>lit\<close>.
\<close>

type_synonym ustr = "nat list"

definition lit :: "string \<Rightarrow> ustr" where
  "lit s = map of_char s"

text \<open>
  \<open>str.isspace\<close>, which is also what \<open>\s\<close> matches in a \<open>str\<close> pattern and what
  \<open>str.strip()\<close> removes: U+0009..U+000D, U+001C..U+001F, U+0020, U+0085, U+00A0,
  U+1680, U+2000..U+200A, U+2028, U+2029, U+202F, U+205F, U+3000.
\<close>

definition is_space :: "nat \<Rightarrow> bool" where
  "is_space c = (c \<in> {9, 10, 11, 12, 13, 28, 29, 30, 31, 32, 133, 160, 5760,
      8232, 8233, 8239, 8287, 12288} \<or> (8192 \<le> c \<and> c \<le> 8202))"

text \<open>\<open>s.replace(a, b)\<close> and \<open>s.replace(a, "")\<close> for a one-character \<open>a\<close>.\<close>

definition replace_char :: "nat \<Rightarrow> nat \<Rightarrow> ustr \<Rightarrow> ustr" where
  "replace_char a b s = map (\<lambda>c. if c = a then b else c) s"

definition remove_char :: "nat \<Rightarrow> ustr \<Rightarrow> ustr" where
  "remove_char a s = filter (\<lambda>c. c \<noteq> a) s"

text \<open>\<open>WHITESPACE_RE.sub(" ", s)\<close> with \<open>WHITESPACE_RE = re.compile(r"\s+")\<close>: every
  maximal run of whitespace becomes one U+0020.\<close>

function whitespace_sub :: "ustr \<Rightarrow> ustr" where
  "whitespace_sub [] = []"
| "whitespace_sub (c # cs) =
     (if is_space c then 32 # whitespace_sub (dropWhile is_space cs)
      else c # whitespace_sub cs)"
  by pat_completeness auto
termination
  by (relation "measure length") (auto simp: length_dropWhile_le less_Suc_eq_le)

text \<open>\<open>s.strip()\<close>.\<close>

definition py_strip :: "ustr \<Rightarrow> ustr" where
  "py_strip s = rev (dropWhile is_space (rev (dropWhile is_space s)))"

text \<open>
  \<open>clean_text(value)\<close>.  The argument is \<open>None\<close> or a string (\<open>value or ""\<close>).
  \<open>unicodedata.normalize("NFKC", .)\<close> belongs to the Python library and is the
  parameter \<open>nfkc\<close>.
\<close>

definition clean_text :: "(ustr \<Rightarrow> ustr) \<Rightarrow> ustr option \<Rightarrow> ustr" where
  "clean_text nfkc v =
     (let normalized = nfkc (case v of None \<Rightarrow> [] | Some s \<Rightarrow> s);
          normalized = remove_char 0x200B (replace_char 0xA0 0x20 normalized);
          normalized = whitespace_sub normalized
      in py_strip normalized)"

text \<open>
  The Unicode library on a small alphabet: on strings over U+0020, U+0065 (e), U+0301
  (combining acute accent), U+200B (zero width space) and U+00E9 (e with acute), NFKC
  composes every adjacent pair U+0065 U+0301 into U+00E9 and changes nothing else
  (U+200B has combining class 0 and no decomposition, so it blocks the composition of
  the characters around it).
\<close>

fun nfkc_e_acute :: "ustr \<Rightarrow> ustr" where
  "nfkc_e_acute (a # b # cs) =
     (if a = 0x65 \<and> b = 0x301 then 0xE9 # nfkc_e_acute cs else a # nfkc_e_acute (b # cs))"
| "nfkc_e_acute cs = cs"

text \<open>Whitespace occurs only as single U+0020 characters.\<close>

fun single_spaced :: "ustr \<Rightarrow> bool" where
  "single_spaced [] = True"
| "single_spaced [c] = (if is_space c then c = 32 else True)"
| "single_spaced (c # d # cs) =
     ((if is_space c then c = 32 \<and> \<not> is_space d else True) \<and> single_spaced (d # cs))"

text \<open>Everything \<open>clean_text\<close> does after the Unicode normalisation.\<close>

definition post_normalize :: "ustr \<Rightarrow> ustr" where
  "post_normalize s = py_strip (whitespace_sub (remove_char 0x200B (replace_char 0xA0 0x20 s)))"


section \<open>FAQ extraction (extraction/faqs.py)\<close>

text \<open>
  A FAQ entry is a \<open>Dict[str, str]\<close>: an association list in insertion order.
\<close>

type_synonym faq = "(ustr \<times> ustr) list"

text \<open>
  The HTML tree is read through BeautifulSoup only (\<open>select\<close>, \<open>select_one\<close>,
  \<open>find_next_sibling\<close>, \<open>get_text(" ", strip=True)\<close>).  The model takes what these
  queries return.  For an answer panel \<open>body\<close>: the text of every element of
  \<open>body.select("p")\<close>, for every element of \<open>body.select("ul, ol")\<close> the texts of its
  \<open>:scope > li\<close> children, and the text of \<open>body\<close> itself.
\<close>

record panel =
  panel_p :: "ustr list"
  panel_lists :: "ustr list list"
  panel_text :: ustr

text \<open>
  For an \<open>li\<close> of an accordion root: the text of \<open>li.select_one("h3.accordion-label")\<close>
  and of \<open>li.select_one(".accordion__projected-title h3")\<close> (\<open>None\<close> when there is no
  match), the panel \<open>li.select_one(".accordion__body, .accordion__body-container")\<close>,
  and for \<open>li.select_one(".accordion__heading")\<close> (outer \<open>None\<close>: no heading) its
  \<open>find_next_sibling()\<close> when that is a \<open>Tag\<close>.
\<close>

record accordion_item =
  label_h3 :: "ustr option"
  projected_h3 :: "ustr option"
  body_container :: "panel option"
  heading_sibling :: "panel option option"

text \<open>
  For the document: the \<open>:scope > li\<close> children of every element of
  \<open>soup.select("accordion-list ul.accordion-list")\<close>, and for every element of
  \<open>soup.select("h3,button")\<close> its text and the text of its next sibling when that
  is a \<open>Tag\<close>.
\<close>

record document =
  accordion_roots :: "accordion_item list list"
  heading_nodes :: "(ustr \<times> ustr option) list"

text \<open>\<open>sep.join(xs)\<close>.\<close>

fun py_join :: "ustr \<Rightarrow> ustr list \<Rightarrow> ustr" where
  "py_join sep [] = []"
| "py_join sep [x] = x"
| "py_join sep (x # y # ys) = x @ sep @ py_join sep (y # ys)"

text \<open>
  \<open>QUESTION_RE.search(s) is not None\<close> for \<open>QUESTION_RE = re.compile(r"(U+00BF).+\?$")\<close>, the
  first character being U+00BF: an inverted question mark, at least one character
  other than a newline, and a question mark at the end of the string or just before
  a final newline.
\<close>

definition question_re_at_end :: "ustr \<Rightarrow> bool" where
  "question_re_at_end t =
     (t \<noteq> [] \<and> last t = 0x3F \<and>
      0xBF \<in> set (butlast (rev (takeWhile (\<lambda>c. c \<noteq> 0xA) (rev (butlast t))))))"

definition question_re_search :: "ustr \<Rightarrow> bool" where
  "question_re_search s =
     (question_re_at_end s \<or> (s \<noteq> [] \<and> last s = 0xA \<and> question_re_at_end (butlast s)))"

text \<open>\<open>_extract_answer_text(body)\<close>; the bullet is U+2022.\<close>

definition extract_answer_text :: "(ustr \<Rightarrow> ustr) \<Rightarrow> panel \<Rightarrow> ustr" where
  "extract_answer_text nfkc body =
     (let chunks = filter (\<lambda>txt. txt \<noteq> []) (map (\<lambda>p. clean_text nfkc (Some p)) (panel_p body));
          chunks = chunks @ concat (map (\<lambda>lst.
                     let items = map (\<lambda>li_txt. [0x2022, 0x20] @ li_txt)
                                   (filter (\<lambda>li_txt. li_txt \<noteq> [])
                                      (map (\<lambda>li. clean_text nfkc (Some li)) lst))
                     in if items \<noteq> [] then [py_join [0xA] items] else [])
                   (panel_lists body));
          chunks = (if chunks = []
                    then (let raw = clean_text nfkc (Some (panel_text body))
                          in if raw \<noteq> [] then [raw] else [])
                    else chunks)
      in py_strip (py_join [0xA, 0xA] chunks))"

text \<open>
  The deduplication loop that ends both strategies, with its two accumulators
  \<open>seen\<close> and \<open>unique\<close>; \<open>key = (faq["question"], faq["answer"])\<close>.
\<close>

definition faq_key :: "faq \<Rightarrow> ustr option \<times> ustr option" where
  "faq_key faq = (map_of faq (lit ''question''), map_of faq (lit ''answer''))"

fun dedupe_loop :: "(ustr option \<times> ustr option) set \<Rightarrow> faq list \<Rightarrow> faq list \<Rightarrow> faq list" where
  "dedupe_loop seen unique [] = unique"
| "dedupe_loop seen unique (faq # faqs) =
     (let key = faq_key faq
      in if key \<notin> seen then dedupe_loop (insert key seen) (unique @ [faq]) faqs
         else dedupe_loop seen unique faqs)"

text \<open>
  One iteration of the loop over the items of a root in
  \<open>extract_faqs_from_nx_accordion\<close>: \<open>None\<close> is \<open>continue\<close>, \<open>Some faq\<close> is
  \<open>faqs.append(faq)\<close>.  The statement \<open>question = question or ""\<close> is kept as written.
\<close>

definition nx_accordion_item :: "(ustr \<Rightarrow> ustr) \<Rightarrow> accordion_item \<Rightarrow> faq option" where
  "nx_accordion_item nfkc li =
     (let question_node = (case label_h3 li of Some t \<Rightarrow> Some t | None \<Rightarrow> projected_h3 li)
      in case question_node of
           None \<Rightarrow> None
         | Some node_text \<Rightarrow>
             let question = clean_text nfkc (Some node_text);
                 question = (if question \<noteq> [] \<and> \<not> question_re_search question
                             then (if question \<noteq> [] then question else [])
                             else question);
                 body = (case body_container li of
                           Some b \<Rightarrow> Some b
                         | None \<Rightarrow> (case heading_sibling li of
                                       Some (Some sibling) \<Rightarrow> Some sibling
                                     | _ \<Rightarrow> None))
             in case body of
                  None \<Rightarrow> None
                | Some b \<Rightarrow>
                    let answer = extract_answer_text nfkc b
                    in if answer = [] then None
                       else Some [(lit ''question'', question), (lit ''answer'', answer)])"

definition nx_accordion_faqs :: "(ustr \<Rightarrow> ustr) \<Rightarrow> document \<Rightarrow> faq list" where
  "nx_accordion_faqs nfkc soup =
     concat (map (\<lambda>root. List.map_filter (nx_accordion_item nfkc) root) (accordion_roots soup))"

definition extract_faqs_from_nx_accordion :: "(ustr \<Rightarrow> ustr) \<Rightarrow> document \<Rightarrow> faq list" where
  "extract_faqs_from_nx_accordion nfkc soup =
     (if accordion_roots soup = [] then []
      else dedupe_loop {} [] (nx_accordion_faqs nfkc soup))"

text \<open>One iteration of the loop of \<open>extract_faqs_fallback\<close>; \<open>"?"\<close> is U+003F.\<close>

definition fallback_node :: "(ustr \<Rightarrow> ustr) \<Rightarrow> ustr \<times> ustr option \<Rightarrow> faq option" where
  "fallback_node nfkc node =
     (let question = clean_text nfkc (Some (fst node))
      in if question = [] \<or> 0x3F \<notin> set question then None
         else let answer = (case snd node of
                              Some sibling_text \<Rightarrow> clean_text nfkc (Some sibling_text)
                            | None \<Rightarrow> [])
              in if question \<noteq> [] \<and> answer \<noteq> []
                 then Some [(lit ''question'', question), (lit ''answer'', answer)]
                 else None)"

definition fallback_faqs :: "(ustr \<Rightarrow> ustr) \<Rightarrow> document \<Rightarrow> faq list" where
  "fallback_faqs nfkc soup = List.map_filter (fallback_node nfkc) (heading_nodes soup)"

definition extract_faqs_fallback :: "(ustr \<Rightarrow> ustr) \<Rightarrow> document \<Rightarrow> faq list" where
  "extract_faqs_fallback nfkc soup = dedupe_loop {} [] (fallback_faqs nfkc soup)"

text \<open>\<open>extract_faqs\<close>: the accordion result when it is not empty, else the fallback.\<close>

definition extract_faqs :: "(ustr \<Rightarrow> ustr) \<Rightarrow> document \<Rightarrow> faq list" where
  "extract_faqs nfkc soup =
     (let faqs = extract_faqs_from_nx_accordion nfkc soup
      in if faqs \<noteq> [] then faqs else extract_faqs_fallback nfkc soup)"

text \<open>
  The entries of a list that are the first with their key, in the order of the list:
  entry \<open>i\<close> is kept when no earlier entry has its key.
\<close>

definition first_occurrences :: "('a \<Rightarrow> 'k) \<Rightarrow> 'a list \<Rightarrow> 'a list" where
  "first_occurrences key xs =
     map (\<lambda>i. xs ! i) (filter (\<lambda>i. key (xs ! i) \<notin> key ` set (take i xs)) [0..<length xs])"




text \<open>A page with no accordion and the heading "e?" three times, followed by elements
  with the texts "e", "ee" and "e".\<close>

definition repeated_heading_page :: document where
  "repeated_heading_page =
     \<lparr>accordion_roots = [],
      heading_nodes = [([0x65, 0x3F], Some [0x65]), ([0x65, 0x3F], Some [0x65, 0x65]),
                       ([0x65, 0x3F], Some [0x65])]\<rparr>"

section \<open>Python values and dictionaries\<close>

text \<open>
  The values the builders handle are JSON-like: \<open>None\<close>, booleans, integers, floats,
  strings, lists and dictionaries.  A dictionary is an association list in insertion
  order whose keys are hashable values (\<open>None\<close>, booleans, numbers, strings); the
  dictionaries of the configuration and of the nodes have string keys, and
  \<open>dict.update\<close> on a list of pairs can add others.  A float is carried as the rational
  value of its literal: the builders store floats, test them against zero and hand
  them to the formatting functions of the environment, and never compute with them.
\<close>

datatype json = JNull | JBool bool | JInt int | JFloat rat | JStr ustr
  | JList "json list" | JDict "(json \<times> json) list"

type_synonym pydict = "(json \<times> json) list"

abbreviation Str :: "string \<Rightarrow> json" where
  "Str s \<equiv> JStr (lit s)"

text \<open>\<open>bool(v)\<close>, \<open>a or b\<close>, \<open>isinstance(v, dict)\<close>.\<close>

fun truthy :: "json \<Rightarrow> bool" where
  "truthy JNull = False"
| "truthy (JBool b) = b"
| "truthy (JInt i) = (i \<noteq> 0)"
| "truthy (JFloat r) = (r \<noteq> 0)"
| "truthy (JStr s) = (s \<noteq> [])"
| "truthy (JList xs) = (xs \<noteq> [])"
| "truthy (JDict kvs) = (kvs \<noteq> [])"

definition py_or :: "json \<Rightarrow> json \<Rightarrow> json" where
  "py_or a b = (if truthy a then a else b)"

fun is_dict :: "json \<Rightarrow> bool" where
  "is_dict (JDict kvs) = True"
| "is_dict v = False"

text \<open>An optional string as a value: \<open>None\<close> or the string.\<close>

definition opt_str :: "ustr option \<Rightarrow> json" where
  "opt_str v = (case v of None \<Rightarrow> JNull | Some s \<Rightarrow> JStr s)"

text \<open>
  Hashing for \<open>in\<close> on a set and for a dictionary key: lists and dictionaries are
  unhashable (\<open>TypeError\<close>); \<open>True\<close>, \<open>1\<close> and \<open>1.0\<close> are the same key.  Two keys are
  the same key of a dictionary when \<open>key_eq\<close> holds.
\<close>

fun hashable :: "json \<Rightarrow> bool" where
  "hashable (JList xs) = False"
| "hashable (JDict kvs) = False"
| "hashable v = True"

fun hash_key :: "json \<Rightarrow> json" where
  "hash_key (JBool b) = JInt (if b then 1 else 0)"
| "hash_key (JFloat r) = (if of_int \<lfloor>r\<rfloor> = r then JInt \<lfloor>r\<rfloor> else JFloat r)"
| "hash_key v = v"

definition key_eq :: "json \<Rightarrow> json \<Rightarrow> bool" where
  "key_eq a b = (hash_key a = hash_key b)"

text \<open>
  \<open>d.get(k)\<close> and \<open>d.get(k, default)\<close> on a dictionary, for a string \<open>k\<close>: only the
  string \<open>k\<close> itself is the same key as \<open>k\<close>.
\<close>

definition dget :: "pydict \<Rightarrow> ustr \<Rightarrow> json" where
  "dget d k = (case map_of d (JStr k) of Some v \<Rightarrow> v | None \<Rightarrow> JNull)"

definition dget_or :: "pydict \<Rightarrow> ustr \<Rightarrow> json \<Rightarrow> json" where
  "dget_or d k dflt = (case map_of d (JStr k) of Some v \<Rightarrow> v | None \<Rightarrow> dflt)"

text \<open>
  \<open>v.get(k, default)\<close> on a value taken from an override: only a dictionary has
  \<open>get\<close>; on anything else Python raises \<open>AttributeError\<close>, which is \<open>None\<close> here, as
  is every other exception inside the builders.
\<close>

definition get :: "json \<Rightarrow> ustr \<Rightarrow> json \<Rightarrow> json option" where
  "get v k dflt = (case v of JDict d \<Rightarrow> Some (dget_or d k dflt) | _ \<Rightarrow> None)"

text \<open>
  \<open>d[k] = v\<close> with a string literal \<open>k\<close> is \<open>AList.update (Str k) v d\<close>: an existing key
  keeps its place, a new key goes last.  For a key that comes from the data, \<open>getitem\<close>
  is the lookup (\<open>k in d\<close>, \<open>d[k]\<close>, \<open>d.get(k)\<close>) and \<open>setitem\<close> the assignment
  \<open>d[k] = v\<close>: the key object that is already in the dictionary stays.
\<close>

fun getitem :: "pydict \<Rightarrow> json \<Rightarrow> json option" where
  "getitem [] k = None"
| "getitem ((k', v') # d) k = (if key_eq k' k then Some v' else getitem d k)"

fun setitem :: "json \<Rightarrow> json \<Rightarrow> pydict \<Rightarrow> pydict" where
  "setitem k v [] = [(k, v)]"
| "setitem k v ((k', v') # d) = (if key_eq k' k then (k', v) # d else (k', v') # setitem k v d)"

text \<open>\<open>d.update(e)\<close> and \<open>{**d, **e}\<close> for a dictionary \<open>e\<close>.\<close>

definition dict_update :: "pydict \<Rightarrow> pydict \<Rightarrow> pydict" where
  "dict_update d e = foldl (\<lambda>acc kv. setitem (fst kv) (snd kv) acc) d e"

text \<open>Iterating a value (\<open>for x in v\<close>): a list, the characters of a string, the keys
  of a dictionary; anything else is not iterable.\<close>

definition iterate :: "json \<Rightarrow> json list option" where
  "iterate v =
     (case v of
        JList xs \<Rightarrow> Some xs
      | JStr s \<Rightarrow> Some (map (\<lambda>c. JStr [c]) s)
      | JDict d \<Rightarrow> Some (map fst d)
      | _ \<Rightarrow> None)"

text \<open>
  \<open>d.update(x)\<close> for any value \<open>x\<close>.  A dictionary is merged key by key.  Anything
  else is iterated, and every element must itself be iterable with exactly two
  elements, the key and the value (\<open>TypeError\<close> or \<open>ValueError\<close> otherwise, and
  \<open>TypeError\<close> for an unhashable key).
\<close>

definition update_pair :: "pydict option \<Rightarrow> json \<Rightarrow> pydict option" where
  "update_pair acc item =
     (case acc of
        None \<Rightarrow> None
      | Some d \<Rightarrow>
          (case iterate item of
             Some [k, v] \<Rightarrow> if hashable k then Some (setitem k v d) else None
           | _ \<Rightarrow> None))"

definition py_update :: "pydict \<Rightarrow> json \<Rightarrow> pydict option" where
  "py_update d x =
     (case x of
        JDict e \<Rightarrow> Some (dict_update d e)
      | _ \<Rightarrow> (case iterate x of
                None \<Rightarrow> None
              | Some items \<Rightarrow> foldl update_pair (Some d) items))"

text \<open>
  What the builders take from the Python library: the ISO date of today plus a number
  of days, the ISO date of 31 December of next year, \<open>str(v)\<close> of a value that is not
  a string, \<open>f"{v:.2f}"\<close> of a number, \<open>template.format(rates_text=s)\<close> (which can
  raise), and \<open>len(re.findall(r"\w+", s))\<close>.
\<close>

record env =
  iso_plus_days :: "int \<Rightarrow> ustr"
  next_year_end_iso :: ustr
  py_repr :: "json \<Rightarrow> ustr"
  fmt_2f :: "json \<Rightarrow> ustr"
  str_format :: "json \<Rightarrow> ustr \<Rightarrow> ustr option"
  word_count :: "ustr \<Rightarrow> nat"

definition py_str :: "env \<Rightarrow> json \<Rightarrow> ustr" where
  "py_str e v = (case v of JStr s \<Rightarrow> s | _ \<Rightarrow> py_repr e v)"

text \<open>\<open>re.sub(r"[^0-9A-Za-z]+", "-", s).strip("-")\<close>.\<close>

definition is_alnum :: "nat \<Rightarrow> bool" where
  "is_alnum c = ((0x30 \<le> c \<and> c \<le> 0x39) \<or> (0x41 \<le> c \<and> c \<le> 0x5A) \<or> (0x61 \<le> c \<and> c \<le> 0x7A))"

function non_alnum_sub :: "ustr \<Rightarrow> ustr" where
  "non_alnum_sub [] = []"
| "non_alnum_sub (c # cs) =
     (if is_alnum c then c # non_alnum_sub cs
      else 0x2D # non_alnum_sub (dropWhile (\<lambda>d. \<not> is_alnum d) cs))"
  by pat_completeness auto
termination
  by (relation "measure length") (auto simp: length_dropWhile_le less_Suc_eq_le)

definition strip_char :: "nat \<Rightarrow> ustr \<Rightarrow> ustr" where
  "strip_char a s = rev (dropWhile (\<lambda>c. c = a) (rev (dropWhile (\<lambda>c. c = a) s)))"

definition slug :: "ustr \<Rightarrow> ustr" where
  "slug s = strip_char 0x2D (non_alnum_sub s)"


section \<open>Deep merge (schema/builders.py)\<close>

text \<open>
  \<open>deep_merge(base, overrides)\<close>.  The values of the model are immutable, so
  \<open>deepcopy\<close> is the identity.  \<open>merge_loop\<close> is the loop over \<open>overrides.items()\<close> with
  \<open>result\<close> as its state; \<open>merge_value\<close> is the value stored at \<open>key\<close>.  A recursive
  call has two dictionaries as arguments, and on an empty \<open>overrides\<close> the early
  return gives \<open>result\<close>, as the loop does.
\<close>

function merge_loop :: "pydict \<Rightarrow> pydict \<Rightarrow> pydict" where
  "merge_loop result [] = result"
| "merge_loop result ((key, val) # rest) =
     merge_loop
       (setitem key
          (case (getitem result key, val) of
             (Some (JDict r), JDict v) \<Rightarrow> JDict (merge_loop r v)
           | _ \<Rightarrow> val)
          result)
       rest"
  by pat_completeness auto
termination
  by (relation "measure (\<lambda>(r, ov). size_list (size_prod size size) ov)") auto

definition merge_value :: "json option \<Rightarrow> json \<Rightarrow> json" where
  "merge_value old val =
     (case (old, val) of
        (Some (JDict r), JDict v) \<Rightarrow> JDict (merge_loop r v)
      | _ \<Rightarrow> val)"

text \<open>
  The entry point, on a value that may come from an override: a falsy \<open>overrides\<close>
  returns the copy of \<open>base\<close>; a truthy value that is not a dictionary has no
  \<open>items\<close> (\<open>AttributeError\<close>).
\<close>

definition deep_merge :: "pydict \<Rightarrow> json \<Rightarrow> pydict option" where
  "deep_merge base overrides =
     (if \<not> truthy overrides then Some base
      else case overrides of JDict ov \<Rightarrow> Some (merge_loop base ov) | _ \<Rightarrow> None)"


section \<open>Configuration tables (config.py)\<close>

definition DEFAULT_PRICE_VALIDITY_DAYS :: int where
  "DEFAULT_PRICE_VALIDITY_DAYS = 365"

definition default_price_valid_until :: "env \<Rightarrow> ustr" where
  "default_price_valid_until e = iso_plus_days e DEFAULT_PRICE_VALIDITY_DAYS"

definition DEFAULT_AGG_RATING :: pydict where
  "DEFAULT_AGG_RATING =
     [(Str ''@type'', Str ''AggregateRating''),
      (Str ''ratingValue'', JFloat (46 / 10)),
      (Str ''ratingCount'', JInt 991000),
      (Str ''bestRating'', JInt 5),
      (Str ''worstRating'', JInt 1)]"

definition DEFAULT_LANGUAGE :: ustr where
  "DEFAULT_LANGUAGE = lit ''es-AR''"

definition LOGO_NX_URL :: ustr where
  "LOGO_NX_URL = lit ''https://images.ctfassets.net/yxlyq25bynna/1IxKUBv3dtISflaWQoSIZW/11e239808ff23ee64b26ba44bfcd93a0/Logo_NX.jpeg''"

definition CUIT_IDENTIFIER :: json where
  "CUIT_IDENTIFIER =
     JDict [(Str ''@type'', Str ''PropertyValue''),
            (Str ''propertyID'', Str ''CUIT''),
            (Str ''value'', Str ''30-68537634-9'')]"

text \<open>\<open>ORGANIZATIONS\<close>; the logo URL and the identifier block are written three times in
  the source, with the same text.\<close>

definition ORG_TARJETA_NARANJA :: pydict where
  "ORG_TARJETA_NARANJA =
     [(Str ''@type'', Str ''Organization''),
      (Str ''@id'', Str ''https://www.naranjax.com/#OrgTarjetaNaranja''),
      (Str ''name'', Str ''Tarjeta Naranja S.A.U.''),
      (Str ''url'', Str ''https://www.naranjax.com/''),
      (Str ''logo'', JDict [(Str ''@type'', Str ''ImageObject''),
                            (Str ''@id'', Str ''https://www.naranjax.com/#LogoTarjetaNaranja''),
                            (Str ''url'', JStr LOGO_NX_URL),
                            (Str ''contentUrl'', JStr LOGO_NX_URL)]),
      (Str ''sameAs'', JList []),
      (Str ''identifier'', CUIT_IDENTIFIER)]"

definition ORG_NARANJA_DIGITAL :: pydict where
  "ORG_NARANJA_DIGITAL =
     [(Str ''@type'', Str ''Organization''),
      (Str ''@id'', Str ''https://www.naranjax.com/#OrgNaranjaDigital''),
      (Str ''name'', JStr (lit ''Naranja Digital Compa'' @ [0xF1, 0xED] @ lit ''a Financiera S.A.U.'')),
      (Str ''url'', Str ''https://www.naranjax.com/''),
      (Str ''logo'', JDict [(Str ''@type'', Str ''ImageObject''),
                            (Str ''@id'', Str ''https://www.naranjax.com/#LogoNaranjaDigital''),
                            (Str ''url'', JStr LOGO_NX_URL),
                            (Str ''contentUrl'', JStr LOGO_NX_URL)]),
      (Str ''sameAs'', JList []),
      (Str ''identifier'', CUIT_IDENTIFIER)]"

definition ORG_NARANJA_X :: pydict where
  "ORG_NARANJA_X =
     [(Str ''@type'', Str ''Organization''),
      (Str ''@id'', Str ''https://www.naranjax.com/#OrgNaranjaX''),
      (Str ''name'', Str ''Naranja X''),
      (Str ''url'', Str ''https://www.naranjax.com/''),
      (Str ''logo'', JDict [(Str ''@type'', Str ''ImageObject''),
                            (Str ''@id'', Str ''https://www.naranjax.com/#LogoNaranjaX''),
                            (Str ''url'', JStr LOGO_NX_URL),
                            (Str ''contentUrl'', JStr LOGO_NX_URL)]),
      (Str ''sameAs'', JList [Str ''https://www.linkedin.com/company/naranja-x/'',
                              Str ''https://twitter.com/naranjax'']),
      (Str ''identifier'', CUIT_IDENTIFIER)]"

definition ORGANIZATIONS :: "(ustr \<times> pydict) list" where
  "ORGANIZATIONS =
     [(lit ''tarjeta_naranja'', ORG_TARJETA_NARANJA),
      (lit ''naranja_digital'', ORG_NARANJA_DIGITAL),
      (lit ''naranja_x'', ORG_NARANJA_X)]"

definition NARANJA_X_ADDRESSES :: json where
  "NARANJA_X_ADDRESSES =
     JList [JDict [(Str ''@type'', Str ''PostalAddress''),
                   (Str ''name'', Str ''Casa Naranja''),
                   (Str ''streetAddress'', Str ''La Tablada 451''),
                   (Str ''addressLocality'', JStr (lit ''C'' @ [0xF3] @ lit ''rdoba'')),
                   (Str ''addressRegion'', JStr (lit ''C'' @ [0xF3] @ lit ''rdoba'')),
                   (Str ''postalCode'', Str ''X5000''),
                   (Str ''addressCountry'', Str ''AR'')],
            JDict [(Str ''@type'', Str ''PostalAddress''),
                   (Str ''name'', Str ''Naranja X Buenos Aires''),
                   (Str ''streetAddress'', Str ''Leiva 4070''),
                   (Str ''addressLocality'',
                      JStr (lit ''Ciudad Aut'' @ [0xF3] @ lit ''noma de Buenos Aires'')),
                   (Str ''addressRegion'', Str ''Buenos Aires''),
                   (Str ''postalCode'', Str ''C1427BQA''),
                   (Str ''addressCountry'', Str ''AR'')]]"

definition WEBPAGE_DEFAULTS :: pydict where
  "WEBPAGE_DEFAULTS =
     [(Str ''@type'', Str ''WebPage''),
      (Str ''inLanguage'', JStr DEFAULT_LANGUAGE),
      (Str ''isPartOf'', JDict [(Str ''@type'', Str ''WebSite''),
                                (Str ''@id'', Str ''https://www.naranjax.com/#website'')]),
      (Str ''publisher'', JDict [(Str ''@id'', dget ORG_TARJETA_NARANJA (lit ''@id''))])]"

definition PAYMENT_SERVICE_DEFAULTS :: pydict where
  "PAYMENT_SERVICE_DEFAULTS =
     [(Str ''area_served'', JDict [(Str ''@type'', Str ''Country''), (Str ''name'', Str ''Argentina'')]),
      (Str ''provider'', JDict [(Str ''org_key'', Str ''naranja_x'')]),
      (Str ''offer'', JDict [(Str ''price_currency'', Str ''ARS''),
                             (Str ''eligible_region'', Str ''AR'')])]"

definition INSURANCE_AGENCY_DEFAULTS :: pydict where
  "INSURANCE_AGENCY_DEFAULTS =
     [(Str ''agency'',
         JDict [(Str ''id_suffix'', Str ''#insurance-agency''),
                (Str ''area_served'', JDict [(Str ''@type'', Str ''AdministrativeArea''),
                                             (Str ''name'', Str ''Argentina'')]),
                (Str ''addresses'', NARANJA_X_ADDRESSES),
                (Str ''identifier'', JDict [(Str ''propertyID'', Str ''CUIT''),
                                            (Str ''value'', Str ''30-68537634-9'')]),
                (Str ''logo'', JDict [(Str ''id'', JStr LOGO_NX_URL),
                                      (Str ''url'', JStr LOGO_NX_URL),
                                      (Str ''contentUrl'', JStr LOGO_NX_URL)]),
                (Str ''same_as'', JList [])]),
      (Str ''product'', JDict [(Str ''id_suffix'', Str ''#producto''),
                               (Str ''category'', Str ''Insurance'')]),
      (Str ''offer'',
         JDict [(Str ''id_suffix'', Str ''#offer-basica''),
                (Str ''name'', JStr (lit ''Cobertura B'' @ [0xE1] @ lit ''sica'')),
                (Str ''price_currency'', Str ''ARS''),
                (Str ''availability'', Str ''https://schema.org/InStock''),
                (Str ''area_served'', Str ''AR''),
                (Str ''eligible_region'', Str ''AR'')])]"

definition FINANCIAL_PRODUCT_ZERO_RATES :: json where
  "FINANCIAL_PRODUCT_ZERO_RATES =
     JDict [(Str ''TNA'', JInt 0), (Str ''TEA'', JInt 0), (Str ''CFT'', JInt 0)]"

definition LOAN_OR_CREDIT_DEFAULTS :: pydict where
  "LOAN_OR_CREDIT_DEFAULTS =
     [(Str ''amount'', JDict [(Str ''currency'', Str ''ARS''),
                              (Str ''minValue'', JInt 10000),
                              (Str ''maxValue'', JInt 9000000)]),
      (Str ''currency'', Str ''ARS''),
      (Str ''loan_term'', JDict [(Str ''@type'', Str ''QuantitativeValue''),
                                 (Str ''maxValue'', JInt 48),
                                 (Str ''unitText'', Str ''MONTH'')]),
      (Str ''interest_rate'', JDict [(Str ''minValue'', JFloat 55),
                                     (Str ''maxValue'', JFloat 153),
                                     (Str ''unitText'', Str ''PERCENT'')]),
      (Str ''annual_percentage_rate'', JDict [(Str ''minValue'', JFloat (9111 / 100)),
                                              (Str ''maxValue'', JFloat (45939 / 100)),
                                              (Str ''unitText'', Str ''PERCENT'')]),
      (Str ''loan_repayment_form'',
         JDict [(Str ''@type'', Str ''RepaymentSpecification''),
                (Str ''name'', JStr (lit ''Sistema de amortizaci'' @ [0xF3] @ lit ''n franc''
                                      @ [0xE9] @ lit ''s'')),
                (Str ''description'',
                   JStr (lit ''Cuotas fijas mensuales con inter'' @ [0xE9]
                         @ lit ''s fijo durante todo el plazo (m'' @ [0xE9]
                         @ lit ''todo franc'' @ [0xE9] @ lit ''s).''))])]"

definition FINANCIAL_PRODUCT_DEFAULTS :: pydict where
  "FINANCIAL_PRODUCT_DEFAULTS =
     [(Str ''area_served'', Str ''AR''),
      (Str ''provider'', JDict [(Str ''org_key'', Str ''tarjeta_naranja'')]),
      (Str ''offer'',
         JDict [(Str ''price_currency'', Str ''ARS''),
                (Str ''billing_increment'', Str ''1''),
                (Str ''min_price'', Str ''0''),
                (Str ''area_served'', Str ''AR''),
                (Str ''valid_from_offset'', JInt 0),
                (Str ''valid_through_offset'', JInt 30),
                (Str ''description_template'',
                   JStr (lit ''Hasta 3 cuotas sin inter'' @ [0xE9] @ lit ''s. {rates_text}.''))]),
      (Str ''product'', JDict [(Str ''id_suffix'', Str ''#financial-product'')]),
      (Str ''faq_id_suffix'', Str ''#FAQPage'')]"

definition LOGO_NX_INVESTMENT_URL :: ustr where
  "LOGO_NX_INVESTMENT_URL = lit ''https://images.ctfassets.net/yxlyq25bynna/5aunl52F9uDLxXLUC8L7O4/b025683cc1824c386a19c478a5dd46ae/isologo-naranjax.png''"

definition INVESTMENT_OR_DEPOSIT_DEFAULTS :: pydict where
  "INVESTMENT_OR_DEPOSIT_DEFAULTS =
     [(Str ''area_served'', Str ''AR''),
      (Str ''globals'', JDict [(Str ''duration'', Str ''''), (Str ''interest_rate'', Str '''')]),
      (Str ''provider'',
         JDict [(Str ''org_key'', Str ''naranja_x''),
                (Str ''overrides'',
                   JDict [(Str ''logo'',
                      JDict [(Str ''@type'', Str ''ImageObject''),
                             (Str ''@id'', Str ''https://www.naranjax.com/#LogoNaranjaXInvestment''),
                             (Str ''url'', JStr LOGO_NX_INVESTMENT_URL),
                             (Str ''contentUrl'', JStr LOGO_NX_INVESTMENT_URL)])])]),
      (Str ''investment'',
         JDict [(Str ''id_suffix'', Str ''#producto''),
                (Str ''types'', JList [Str ''InvestmentOrDeposit'']),
                (Str ''alternate_name'', Str ''Ahorro por objetivos con TNA''),
                (Str ''service_type'',
                   JStr (lit ''Ahorro por objetivos con inter'' @ [0xE9] @ lit ''s (TNA)'')),
                (Str ''audience'',
                   JDict [(Str ''@type'', Str ''Audience''),
                          (Str ''audienceType'', Str ''Usuarios de banca minorista en Argentina'')]),
                (Str ''interest_rate'', JDict [(Str ''type'', Str ''QuantitativeValue''),
                                               (Str ''unit_text'', Str ''TNA'')])]),
      (Str ''offer'',
         JDict [(Str ''id_suffix'', Str ''#offer''),
                (Str ''price_currency'', Str ''ARS''),
                (Str ''area_served'', Str ''AR''),
                (Str ''eligible_region'', Str ''AR''),
                (Str ''availability'', Str ''https://schema.org/InStock''),
                (Str ''valid_from_offset'', JInt 0),
                (Str ''valid_through_offset'', JInt 28)]),
      (Str ''product'', JDict [(Str ''id_suffix'', Str ''#product'')]),
      (Str ''faq_id_suffix'', Str ''#FAQPage'')]"


section \<open>The context and the shared node builders (models.py, schema/builders.py)\<close>

text \<open>\<open>SchemaContext\<close>; the fields carry the prefix \<open>ctx_\<close>.\<close>

record SchemaContext =
  ctx_page_url :: ustr
  ctx_name :: ustr
  ctx_description :: "ustr option"
  ctx_image_url :: "ustr option"
  ctx_faqs :: "faq list"
  ctx_body_text :: "ustr option"
  ctx_aggregate_rating :: "pydict option"

text \<open>\<open>if s:\<close> for an optional string.\<close>

definition str_truthy :: "ustr option \<Rightarrow> bool" where
  "str_truthy v = (case v of None \<Rightarrow> False | Some s \<Rightarrow> s \<noteq> [])"

text \<open>
  \<open>organization_reference(org_key_or_data)\<close>: for a dictionary its \<open>@id\<close>, else the
  \<open>@id\<close> of \<open>ORGANIZATIONS[key]\<close> (\<open>KeyError\<close> on an unknown key, \<open>TypeError\<close> on an
  unhashable one).
\<close>

definition organization_reference :: "json \<Rightarrow> pydict option" where
  "organization_reference org_key_or_data =
     (case org_key_or_data of
        JDict d \<Rightarrow> Some [(Str ''@id'', dget d (lit ''@id''))]
      | JStr k \<Rightarrow> (case map_of ORGANIZATIONS k of
                     None \<Rightarrow> None
                   | Some org \<Rightarrow> (case map_of org (Str ''@id'') of
                                    None \<Rightarrow> None
                                  | Some i \<Rightarrow> Some [(Str ''@id'', i)]))
      | _ \<Rightarrow> None)"

text \<open>
  The body of both loops of \<open>resolve_organization\<close>:
  \<open>base[key].update(value)\<close> when both are dictionaries, else \<open>base[key] = value\<close>.
\<close>

definition override_field :: "pydict \<Rightarrow> json \<times> json \<Rightarrow> pydict" where
  "override_field base kv =
     (case (snd kv, getitem base (fst kv)) of
        (JDict v, Some (JDict b)) \<Rightarrow> setitem (fst kv) (JDict (dict_update b v)) base
      | _ \<Rightarrow> setitem (fst kv) (snd kv) base)"

text \<open>\<open>ORGANIZATIONS.get(org_key, ORGANIZATIONS[default_key])\<close>.\<close>

definition organization_or_default :: "json \<Rightarrow> ustr \<Rightarrow> pydict option" where
  "organization_or_default org_key default_key =
     (case map_of ORGANIZATIONS default_key of
        None \<Rightarrow> None
      | Some dflt \<Rightarrow>
          if \<not> hashable org_key then None
          else (case org_key of
                  JStr k \<Rightarrow> Some (case map_of ORGANIZATIONS k of Some org \<Rightarrow> org | None \<Rightarrow> dflt)
                | _ \<Rightarrow> Some dflt))"

text \<open>\<open>resolve_organization(config, default_key)\<close>.\<close>

definition resolve_organization :: "json \<Rightarrow> ustr \<Rightarrow> pydict option" where
  "resolve_organization config default_key = do {
     let cfg = py_or config (JDict []);
     org_key_value \<leftarrow> get cfg (lit ''org_key'') JNull;
     let org_key = py_or org_key_value (JStr default_key);
     base \<leftarrow> organization_or_default org_key default_key;
     id_value \<leftarrow> get cfg (lit ''id'') JNull;
     at_id_value \<leftarrow> get cfg (lit ''@id'') JNull;
     let org_id = py_or id_value at_id_value;
     let base = (if truthy org_id
                 then (case filter (\<lambda>org. dget org (lit ''@id'') = org_id) (map snd ORGANIZATIONS) of
                         [] \<Rightarrow> base
                       | matched # _ \<Rightarrow> if matched \<noteq> [] then matched else base)
                 else base);
     items \<leftarrow> (case cfg of JDict d \<Rightarrow> Some d | _ \<Rightarrow> None);
     let base = foldl override_field base
                  (filter (\<lambda>kv. fst kv \<noteq> Str ''org_key'' \<and> fst kv \<noteq> Str ''overrides'') items);
     overrides \<leftarrow> get cfg (lit ''overrides'') JNull;
     if truthy overrides
     then (case overrides of
             JDict ov \<Rightarrow> Some (foldl override_field base ov)
           | _ \<Rightarrow> None)
     else Some base
   }"

text \<open>
  \<open>append_organization(graph, org_data, added_ids)\<close> mutates the list and the set; the
  model returns both.  \<open>org_id in added_ids\<close> and \<open>added_ids.add(org_id)\<close> hash the
  identifier.
\<close>

definition append_organization ::
  "pydict list \<Rightarrow> pydict \<Rightarrow> json set \<Rightarrow> (pydict list \<times> json set) option" where
  "append_organization graph org_data added_ids =
     (let org_id = dget org_data (lit ''@id'')
      in if truthy org_id
         then (if \<not> hashable org_id then None
               else if hash_key org_id \<in> added_ids then Some (graph, added_ids)
               else Some (graph @ [org_data], insert (hash_key org_id) added_ids))
         else Some (graph @ [org_data], added_ids))"

text \<open>\<open>_faq_entities(faqs)\<close>: one iteration, then the loop.\<close>

definition faq_entity :: "faq \<Rightarrow> json option" where
  "faq_entity faq =
     (let question = py_strip (case map_of faq (lit ''question'') of Some q \<Rightarrow> q | None \<Rightarrow> []);
          answer = py_strip (case map_of faq (lit ''answer'') of Some a \<Rightarrow> a | None \<Rightarrow> [])
      in if question = [] \<or> answer = [] then None
         else Some (JDict [(Str ''@type'', Str ''Question''),
                           (Str ''name'', JStr question),
                           (Str ''acceptedAnswer'',
                              JDict [(Str ''@type'', Str ''Answer''), (Str ''text'', JStr answer)])]))"

definition faq_entities :: "faq list \<Rightarrow> json list" where
  "faq_entities fs = List.map_filter faq_entity fs"

text \<open>\<open>build_faq_page(page_url, faqs, node_id, extra)\<close>; \<open>None\<close> is Python's \<open>None\<close>.\<close>

definition build_faq_page :: "ustr \<Rightarrow> faq list \<Rightarrow> json \<Rightarrow> pydict option \<Rightarrow> pydict option" where
  "build_faq_page url fs node_id extra =
     (let entities = faq_entities fs
      in if entities = [] then None
         else let node = [(Str ''@type'', Str ''FAQPage''),
                          (Str ''@id'', node_id),
                          (Str ''inLanguage'', JStr DEFAULT_LANGUAGE),
                          (Str ''mainEntity'', JList entities)]
              in Some (case extra of Some e \<Rightarrow> dict_update node e | None \<Rightarrow> node))"

text \<open>\<open>build_product_node(page_url, node_id, name, image_url, aggregate_rating,
  description, extra)\<close>.\<close>

definition build_product_node ::
  "ustr \<Rightarrow> json \<Rightarrow> json \<Rightarrow> ustr option \<Rightarrow> pydict option \<Rightarrow> ustr option \<Rightarrow> pydict option \<Rightarrow> pydict" where
  "build_product_node url node_id nm img rating descr extra =
     (let node = [(Str ''@type'', Str ''Product''), (Str ''@id'', node_id), (Str ''name'', nm)];
          node = (case img of
                    Some i \<Rightarrow> if i \<noteq> [] then AList.update (Str ''image'') (JStr i) node else node
                  | None \<Rightarrow> node);
          node = (case rating of
                    Some r \<Rightarrow> if r \<noteq> [] then AList.update (Str ''aggregateRating'') (JDict r) node
                              else node
                  | None \<Rightarrow> node);
          node = (case descr of
                    Some d \<Rightarrow> if d \<noteq> [] then AList.update (Str ''description'') (JStr d) node
                              else node
                  | None \<Rightarrow> node)
      in case extra of Some e \<Rightarrow> dict_update node e | None \<Rightarrow> node)"

text \<open>\<open>build_offer_node(page_url, node_id, data)\<close>.\<close>

definition build_offer_node :: "ustr \<Rightarrow> json \<Rightarrow> pydict \<Rightarrow> pydict" where
  "build_offer_node url node_id data =
     foldl (\<lambda>node kv. if fst kv = Str ''url'' then node else setitem (fst kv) (snd kv) node)
       [(Str ''@type'', Str ''Offer''), (Str ''@id'', node_id),
        (Str ''url'', dget_or data (lit ''url'') (JStr url))]
       data"

text \<open>\<open>build_webpage_node(ctx, extra)\<close>.\<close>

definition build_webpage_node :: "SchemaContext \<Rightarrow> pydict option \<Rightarrow> pydict" where
  "build_webpage_node ctx extra =
     (let node = WEBPAGE_DEFAULTS;
          node = AList.update (Str ''@id'') (JStr (ctx_page_url ctx @ lit ''#WebPage'')) node;
          node = AList.update (Str ''url'') (JStr (ctx_page_url ctx)) node;
          node = AList.update (Str ''name'') (JStr (ctx_name ctx)) node;
          node = (case ctx_description ctx of
                    Some d \<Rightarrow> if d \<noteq> [] then AList.update (Str ''description'') (JStr d) node
                              else node
                  | None \<Rightarrow> node)
      in case extra of Some e \<Rightarrow> dict_update node e | None \<Rightarrow> node)"

text \<open>\<open>if faq_page: graph.append(faq_page)\<close>.\<close>

definition append_faq_page :: "pydict list \<Rightarrow> pydict option \<Rightarrow> pydict list" where
  "append_faq_page graph faq_page =
     (case faq_page of
        Some node \<Rightarrow> if node \<noteq> [] then graph @ [node] else graph
      | None \<Rightarrow> graph)"


section \<open>The graph builders (schema/builders.py)\<close>

text \<open>
  Every builder returns the list of nodes, or \<open>None\<close> when an exception leaves it (an
  override of the wrong shape).  The keyword arguments a builder ignores (\<open>**_\<close>) are
  left out.  Appending to \<open>graph\<close> and assigning to a key of a node rebind the name.
\<close>

text \<open>\<open>v not in (None, "")\<close>.\<close>

definition none_or_empty :: "json \<Rightarrow> bool" where
  "none_or_empty v = (v = JNull \<or> v = JStr [])"

text \<open>\<open>build_blog_posting_graph(ctx, blog_defaults)\<close>.\<close>

definition build_blog_posting_graph ::
  "env \<Rightarrow> SchemaContext \<Rightarrow> pydict option \<Rightarrow> pydict list option" where
  "build_blog_posting_graph e ctx blog_defaults = do {
     let graph = [];
     let added_orgs = {};
     let cfg = (case blog_defaults of Some d \<Rightarrow> d | None \<Rightarrow> []);
     let author_cfg = py_or (dget cfg (lit ''author'')) (JDict []);
     let publisher_cfg = py_or (dget cfg (lit ''publisher'')) (JDict []);
     author_org \<leftarrow> resolve_organization author_cfg (lit ''naranja_x'');
     publisher_org \<leftarrow> resolve_organization publisher_cfg (lit ''naranja_x'');
     let editor_names = py_or (dget cfg (lit ''editors''))
           (JList [JStr (lit ''Natal'' @ [0xED] @ lit '' Ciappini''), Str ''Francisco Piccini'']);
     names \<leftarrow> iterate editor_names;
     let editors = map (\<lambda>n. JDict [(Str ''@type'', Str ''Person''), (Str ''name'', n)])
                     (filter truthy names);
     let article_body = (case ctx_body_text ctx of Some b \<Rightarrow> b | None \<Rightarrow> []);
     let wcount = (if article_body \<noteq> [] then Some (word_count e article_body) else None);
     author_ref \<leftarrow> organization_reference (JDict author_org);
     let author_ref = AList.update (Str ''@type'') (Str ''Organization'') author_ref;
     publisher_ref \<leftarrow> organization_reference (JDict publisher_org);
     let publisher_ref = AList.update (Str ''@type'') (Str ''Organization'') publisher_ref;
     let blog_posting =
       [(Str ''@type'', Str ''BlogPosting''),
        (Str ''@id'', JStr (ctx_page_url ctx @ lit ''#BlogPosting'')),
        (Str ''url'', JStr (ctx_page_url ctx)),
        (Str ''headline'', dget_or cfg (lit ''headline'') (JStr (ctx_name ctx))),
        (Str ''description'', dget_or cfg (lit ''description'') (opt_str (ctx_description ctx))),
        (Str ''mainEntityOfPage'',
           JDict [(Str ''@type'', Str ''WebPage''),
                  (Str ''@id'', JStr (ctx_page_url ctx @ lit ''#WebPage''))]),
        (Str ''author'', JDict author_ref),
        (Str ''publisher'', JDict publisher_ref),
        (Str ''inLanguage'', dget_or cfg (lit ''in_language'') (JStr DEFAULT_LANGUAGE))];
     let blog_posting = (if editors \<noteq> []
                         then AList.update (Str ''editor'') (JList editors) blog_posting
                         else blog_posting);
     let blog_posting = (case ctx_image_url ctx of
                           Some i \<Rightarrow> if i \<noteq> []
                                     then AList.update (Str ''image'') (JList [JStr i]) blog_posting
                                     else blog_posting
                         | None \<Rightarrow> blog_posting);
     let blog_posting = (if article_body \<noteq> []
                         then AList.update (Str ''articleBody'') (JStr article_body) blog_posting
                         else blog_posting);
     let blog_posting = (case wcount of
                           Some n \<Rightarrow> if n \<noteq> 0
                                     then AList.update (Str ''wordCount'') (JInt (int n)) blog_posting
                                     else blog_posting
                         | None \<Rightarrow> blog_posting);
     let date_published = py_or (dget cfg (lit ''date_published'')) (dget cfg (lit ''datePublished''));
     let blog_posting = (if truthy date_published
                         then AList.update (Str ''datePublished'') date_published blog_posting
                         else blog_posting);
     let date_modified = py_or (dget cfg (lit ''date_modified'')) (dget cfg (lit ''dateModified''));
     let blog_posting = (if truthy date_modified
                         then AList.update (Str ''dateModified'') date_modified blog_posting
                         else blog_posting);
     let article_section =
           py_or (dget cfg (lit ''article_section'')) (dget cfg (lit ''articleSection''));
     let blog_posting = (if truthy article_section
                         then AList.update (Str ''articleSection'') article_section blog_posting
                         else blog_posting);
     let keywords = dget cfg (lit ''keywords'');
     let blog_posting = (if truthy keywords
                         then AList.update (Str ''keywords'') keywords blog_posting
                         else blog_posting);
     let extra_fields = py_or (dget cfg (lit ''extra'')) (JDict []);
     blog_posting \<leftarrow> (if truthy extra_fields
                       then py_update blog_posting extra_fields
                       else Some blog_posting);
     let graph = graph @ [blog_posting];
     let webpage_overrides =
       [(Str ''publisher'', JDict publisher_ref),
        (Str ''inLanguage'', dget_or cfg (lit ''in_language'') (JStr DEFAULT_LANGUAGE))];
     let graph = graph @ [build_webpage_node ctx (Some webpage_overrides)];
     (graph, added_orgs) \<leftarrow> append_organization graph author_org added_orgs;
     (graph, added_orgs) \<leftarrow> append_organization graph publisher_org added_orgs;
     Some graph
   }"

text \<open>\<open>build_payment_card_graph(ctx)\<close>.\<close>

definition build_payment_card_graph :: "env \<Rightarrow> SchemaContext \<Rightarrow> pydict list option" where
  "build_payment_card_graph e ctx = do {
     let graph = [];
     let added_orgs = {};
     let offer_id = ctx_page_url ctx @ lit ''#Offer'';
     provider_ref \<leftarrow> organization_reference (Str ''tarjeta_naranja'');
     let payment_card =
       [(Str ''@type'', Str ''PaymentCard''),
        (Str ''@id'', JStr (ctx_page_url ctx @ lit ''#PaymentCard'')),
        (Str ''url'', JStr (ctx_page_url ctx)),
        (Str ''name'', JStr (ctx_name ctx)),
        (Str ''description'', opt_str (ctx_description ctx)),
        (Str ''areaServed'', Str ''AR''),
        (Str ''provider'', JList [JDict provider_ref]),
        (Str ''mainEntityOfPage'', JStr (ctx_page_url ctx)),
        (Str ''offers'', JDict [(Str ''@id'', JStr offer_id)])];
     let payment_card =
       (case ctx_image_url ctx of
          Some i \<Rightarrow> if i \<noteq> []
                    then AList.update (Str ''image'')
                           (JDict [(Str ''@type'', Str ''ImageObject''),
                                   (Str ''@id'', JStr (ctx_page_url ctx @ lit ''#PaymentCardImage'')),
                                   (Str ''url'', JStr i)])
                           payment_card
                    else payment_card
        | None \<Rightarrow> payment_card);
     let graph = graph @ [payment_card];
     let price_valid_until = default_price_valid_until e;
     let offer = build_offer_node (ctx_page_url ctx) (JStr offer_id)
       [(Str ''name'', JStr (ctx_name ctx)),
        (Str ''price'', Str ''0''),
        (Str ''priceCurrency'', Str ''ARS''),
        (Str ''availability'', Str ''https://schema.org/InStock''),
        (Str ''areaServed'', Str ''AR''),
        (Str ''priceValidUntil'', JStr price_valid_until)];
     let graph = graph @ [offer];
     let product = build_product_node (ctx_page_url ctx)
       (JStr (ctx_page_url ctx @ lit ''#Product'')) (JStr (ctx_name ctx)) (ctx_image_url ctx)
       (ctx_aggregate_rating ctx) (ctx_description ctx)
       (Some [(Str ''url'', JStr (ctx_page_url ctx)),
              (Str ''offers'', JDict [(Str ''@id'', JStr offer_id)])]);
     let graph = graph @ [product];
     let faq_page = build_faq_page (ctx_page_url ctx) (ctx_faqs ctx)
                      (JStr (ctx_page_url ctx @ lit ''#FAQPage'')) None;
     let graph = append_faq_page graph faq_page;
     let graph = graph @ [build_webpage_node ctx None];
     org \<leftarrow> resolve_organization (JDict []) (lit ''tarjeta_naranja'');
     (graph, added_orgs) \<leftarrow> append_organization graph org added_orgs;
     Some graph
   }"

text \<open>\<open>_quantitative_node(cfg)\<close>, the local function of \<open>build_loan_or_credit_graph\<close>:
  the loop over the four keys carries \<open>node\<close> and \<open>has_value\<close>.\<close>

definition quantitative_step :: "pydict \<Rightarrow> pydict \<times> bool \<Rightarrow> ustr \<Rightarrow> pydict \<times> bool" where
  "quantitative_step cfg st key =
     (let v = dget cfg key
      in if v \<noteq> JNull
         then (AList.update (JStr key) v (fst st), if key \<noteq> lit ''unitText'' then True else snd st)
         else st)"

definition quantitative_node :: "json \<Rightarrow> pydict option" where
  "quantitative_node cfg =
     (case cfg of
        JDict c \<Rightarrow>
          let st = foldl (quantitative_step c)
                     ([(Str ''@type'', dget_or c (lit ''@type'') (Str ''QuantitativeValue''))], False)
                     [lit ''minValue'', lit ''maxValue'', lit ''unitText'', lit ''value'']
          in if snd st \<or> length (fst st) > 1 then Some (fst st) else None
      | _ \<Rightarrow> None)"

text \<open>\<open>if node: loan_node[key] = node\<close>.\<close>

definition attach_node :: "ustr \<Rightarrow> pydict option \<Rightarrow> pydict \<Rightarrow> pydict" where
  "attach_node key node target =
     (case node of
        Some n \<Rightarrow> if n \<noteq> [] then AList.update (JStr key) (JDict n) target else target
      | None \<Rightarrow> target)"

text \<open>\<open>build_loan_or_credit_graph(ctx, price_spec, loan_defaults)\<close>.\<close>

definition build_loan_or_credit_graph ::
  "env \<Rightarrow> SchemaContext \<Rightarrow> pydict option \<Rightarrow> pydict option \<Rightarrow> pydict list option" where
  "build_loan_or_credit_graph e ctx price_spec loan_defaults = do {
     let graph = [];
     let added_orgs = {};
     defaults \<leftarrow> deep_merge LOAN_OR_CREDIT_DEFAULTS
                   (JDict (case loan_defaults of Some d \<Rightarrow> d | None \<Rightarrow> []));
     let amount_cfg = dget_or defaults (lit ''amount'') (JDict []);
     currency_value \<leftarrow> (if truthy (dget defaults (lit ''currency''))
                         then Some (dget defaults (lit ''currency''))
                         else get amount_cfg (lit ''currency'') JNull);
     let loan_term_cfg = dget_or defaults (lit ''loan_term'') (JDict []);
     let interest_rate_cfg = dget_or defaults (lit ''interest_rate'') (JDict []);
     let apr_cfg = dget_or defaults (lit ''annual_percentage_rate'') (JDict []);
     let repayment_cfg = dget_or defaults (lit ''loan_repayment_form'') (JDict []);
     let loan_type_value = py_or (dget defaults (lit ''loan_type'')) (JStr (ctx_name ctx));
     let offer_id = ctx_page_url ctx @ lit ''#Offer'';
     ref_digital \<leftarrow> organization_reference (Str ''naranja_digital'');
     ref_tarjeta \<leftarrow> organization_reference (Str ''tarjeta_naranja'');
     let loan_node =
       [(Str ''@type'', Str ''LoanOrCredit''),
        (Str ''@id'', JStr (ctx_page_url ctx @ lit ''#LoanOrCredit'')),
        (Str ''url'', JStr (ctx_page_url ctx)),
        (Str ''name'', JStr (ctx_name ctx)),
        (Str ''provider'', JList [JDict ref_digital, JDict ref_tarjeta]),
        (Str ''mainEntityOfPage'', JStr (ctx_page_url ctx)),
        (Str ''offers'', JDict [(Str ''@id'', JStr offer_id)]),
        (Str ''loanType'', loan_type_value)];
     let loan_node = (if truthy currency_value
                      then AList.update (Str ''currency'') currency_value loan_node
                      else loan_node);
     let loan_node =
       (case amount_cfg of
          JDict a \<Rightarrow>
            if a \<noteq> []
            then (let amount_node = [(Str ''@type'', Str ''MonetaryAmount'')];
                      amount_currency = dget_or a (lit ''currency'') currency_value;
                      amount_node = (if truthy amount_currency
                                     then AList.update (Str ''currency'') amount_currency amount_node
                                     else amount_node);
                      amount_node = foldl (\<lambda>n key. if dget a key \<noteq> JNull
                                                      then AList.update (JStr key) (dget a key) n else n)
                                      amount_node [lit ''minValue'', lit ''maxValue'']
                  in if length amount_node > 1
                     then AList.update (Str ''amount'') (JDict amount_node) loan_node
                     else loan_node)
            else loan_node
        | _ \<Rightarrow> loan_node);
     let term_node = quantitative_node loan_term_cfg;
     let loan_node = attach_node (lit ''loanTerm'') term_node loan_node;
     let interest_node = quantitative_node interest_rate_cfg;
     let loan_node = attach_node (lit ''interestRate'') interest_node loan_node;
     let apr_node = quantitative_node apr_cfg;
     let loan_node = attach_node (lit ''annualPercentageRate'') apr_node loan_node;
     let loan_node =
       (case repayment_cfg of
          JDict r \<Rightarrow>
            if r \<noteq> []
            then (let repayment_node =
                        [(Str ''@type'', dget_or r (lit ''@type'') (Str ''RepaymentSpecification''))];
                      repayment_node = foldl (\<lambda>n key. if truthy (dget r key)
                                                         then AList.update (JStr key) (dget r key) n else n)
                                         repayment_node [lit ''name'', lit ''description'']
                  in if length repayment_node > 1
                     then AList.update (Str ''loanRepaymentForm'') (JDict repayment_node) loan_node
                     else loan_node)
            else loan_node
        | _ \<Rightarrow> loan_node);
     let loan_node =
       (case ctx_image_url ctx of
          Some i \<Rightarrow> if i \<noteq> []
                    then AList.update (Str ''image'')
                           (JDict [(Str ''@type'', Str ''ImageObject''),
                                   (Str ''@id'', JStr (ctx_page_url ctx @ lit ''#LoanImage'')),
                                   (Str ''url'', JStr i)])
                           loan_node
                    else loan_node
        | None \<Rightarrow> loan_node);
     let graph = graph @ [loan_node];
     let offer_price = Str ''0'';
     let offer_price =
       (case price_spec of
          Some ps \<Rightarrow> if ps \<noteq> []
                     then (let price_candidate = dget ps (lit ''price'')
                           in if \<not> none_or_empty price_candidate
                              then JStr (py_str e price_candidate) else offer_price)
                     else offer_price
        | None \<Rightarrow> offer_price);
     let price_valid_until = default_price_valid_until e;
     let offer = build_offer_node (ctx_page_url ctx) (JStr offer_id)
       [(Str ''name'', JStr (ctx_name ctx)),
        (Str ''priceCurrency'', Str ''ARS''),
        (Str ''areaServed'', Str ''AR''),
        (Str ''availability'', Str ''https://schema.org/InStock''),
        (Str ''priceValidUntil'', JStr price_valid_until),
        (Str ''price'', offer_price)];
     let graph = graph @ [offer];
     let product = build_product_node (ctx_page_url ctx)
       (JStr (ctx_page_url ctx @ lit ''#Product'')) (JStr (ctx_name ctx)) (ctx_image_url ctx)
       (ctx_aggregate_rating ctx) (ctx_description ctx)
       (Some [(Str ''url'', JStr (ctx_page_url ctx)),
              (Str ''offers'', JDict [(Str ''@id'', JStr offer_id)])]);
     let graph = graph @ [product];
     let faq_page = build_faq_page (ctx_page_url ctx) (ctx_faqs ctx)
                      (JStr (ctx_page_url ctx @ lit ''#FAQPage'')) None;
     let graph = append_faq_page graph faq_page;
     let graph = graph @ [build_webpage_node ctx None];
     org_digital \<leftarrow> resolve_organization (JDict []) (lit ''naranja_digital'');
     (graph, added_orgs) \<leftarrow> append_organization graph org_digital added_orgs;
     org_tarjeta \<leftarrow> resolve_organization (JDict []) (lit ''tarjeta_naranja'');
     (graph, added_orgs) \<leftarrow> append_organization graph org_tarjeta added_orgs;
     Some graph
   }"

text \<open>\<open>build_bank_account_graph(ctx, bank_defaults)\<close>.\<close>

definition build_bank_account_graph ::
  "env \<Rightarrow> SchemaContext \<Rightarrow> pydict option \<Rightarrow> pydict list option" where
  "build_bank_account_graph e ctx bank_defaults = do {
     let graph = [];
     let added_orgs = {};
     let cfg = (case bank_defaults of Some d \<Rightarrow> d | None \<Rightarrow> []);
     let price_currency = dget_or cfg (lit ''price_currency'') (Str ''ARS'');
     let valid_from = dget_or cfg (lit ''valid_from'') (JStr (iso_plus_days e 0));
     let valid_through = dget_or cfg (lit ''valid_through'') (JStr (next_year_end_iso e));
     let area_served_place =
       JDict [(Str ''@type'', Str ''Place''),
              (Str ''name'', Str ''Argentina''),
              (Str ''address'', JDict [(Str ''@type'', Str ''PostalAddress''),
                                       (Str ''addressCountry'', Str ''AR'')])];
     let offer_id = ctx_page_url ctx @ lit ''#Offer'';
     let bank_account_offer_price = dget_or cfg (lit ''price'') (Str ''0'');
     let bank_account_offer_price =
           (if none_or_empty bank_account_offer_price then Str ''0'' else bank_account_offer_price);
     provider_ref \<leftarrow> organization_reference (Str ''tarjeta_naranja'');
     let bank_account =
       [(Str ''@type'', Str ''BankAccount''),
        (Str ''@id'', JStr (ctx_page_url ctx @ lit ''#bankaccount'')),
        (Str ''name'', JStr (ctx_name ctx)),
        (Str ''description'', opt_str (ctx_description ctx)),
        (Str ''areaServed'', area_served_place),
        (Str ''provider'', JDict provider_ref),
        (Str ''offers'', JDict [(Str ''@id'', JStr offer_id)])];
     let graph = graph @ [bank_account];
     let price_valid_until =
           py_or (dget cfg (lit ''price_valid_until''))
             (py_or valid_through (JStr (default_price_valid_until e)));
     seller_ref \<leftarrow> organization_reference (Str ''tarjeta_naranja'');
     let offer = build_offer_node (ctx_page_url ctx) (JStr offer_id)
       [(Str ''priceCurrency'', price_currency),
        (Str ''availability'', Str ''https://schema.org/InStock''),
        (Str ''validFrom'', valid_from),
        (Str ''validThrough'', valid_through),
        (Str ''areaServed'', area_served_place),
        (Str ''eligibleRegion'', Str ''AR''),
        (Str ''seller'', JDict seller_ref),
        (Str ''priceValidUntil'', price_valid_until),
        (Str ''price'', bank_account_offer_price)];
     let graph = graph @ [offer];
     let product = build_product_node (ctx_page_url ctx)
       (JStr (ctx_page_url ctx @ lit ''#Product'')) (JStr (ctx_name ctx)) (ctx_image_url ctx)
       (ctx_aggregate_rating ctx) (ctx_description ctx)
       (Some [(Str ''url'', JStr (ctx_page_url ctx)),
              (Str ''offers'', JDict [(Str ''@id'', JStr offer_id)])]);
     let graph = graph @ [product];
     let faq_page = build_faq_page (ctx_page_url ctx) (ctx_faqs ctx)
                      (JStr (ctx_page_url ctx @ lit ''#faq''))
                      (Some [(Str ''url'', JStr (ctx_page_url ctx)),
                             (Str ''name'', JStr (lit ''Preguntas frecuentes sobre '' @ ctx_name ctx)),
                             (Str ''inLanguage'', JStr DEFAULT_LANGUAGE)]);
     let graph = append_faq_page graph faq_page;
     let graph = graph @ [build_webpage_node ctx None];
     org \<leftarrow> resolve_organization (JDict []) (lit ''tarjeta_naranja'');
     (graph, added_orgs) \<leftarrow> append_organization graph org added_orgs;
     Some graph
   }"


text \<open>\<open>build_payment_service_graph(ctx, payment_service_defaults)\<close>.\<close>

definition build_payment_service_graph ::
  "env \<Rightarrow> SchemaContext \<Rightarrow> pydict option \<Rightarrow> pydict list option" where
  "build_payment_service_graph e ctx payment_service_defaults = do {
     let graph = [];
     let added_orgs = {};
     cfg \<leftarrow> deep_merge PAYMENT_SERVICE_DEFAULTS
              (JDict (case payment_service_defaults of Some d \<Rightarrow> d | None \<Rightarrow> []));
     let area_served = dget_or cfg (lit ''area_served'')
           (JDict [(Str ''@type'', Str ''Country''), (Str ''name'', Str ''Argentina'')]);
     provider \<leftarrow> resolve_organization (dget cfg (lit ''provider'')) (lit ''naranja_x'');
     provider_ref \<leftarrow> organization_reference (JDict provider);
     let service_node =
       [(Str ''@type'', Str ''PaymentService''),
        (Str ''@id'', JStr (ctx_page_url ctx @ lit ''#PaymentService'')),
        (Str ''name'', JStr (ctx_name ctx)),
        (Str ''description'', opt_str (ctx_description ctx)),
        (Str ''areaServed'', area_served),
        (Str ''provider'', JDict provider_ref),
        (Str ''offers'', JDict [(Str ''@id'', JStr (ctx_page_url ctx @ lit ''#Offer''))])];
     let service_node =
       (case ctx_image_url ctx of
          Some i \<Rightarrow> if i \<noteq> [] then AList.update (Str ''image'') (JStr i) service_node
                    else service_node
        | None \<Rightarrow> service_node);
     let graph = graph @ [service_node];
     let offer_cfg = dget_or cfg (lit ''offer'') (JDict []);
     valid_from \<leftarrow> get offer_cfg (lit ''valid_from'') (JStr (iso_plus_days e 0));
     valid_through \<leftarrow> get offer_cfg (lit ''valid_through'') (JStr (next_year_end_iso e));
     availability_starts \<leftarrow> get offer_cfg (lit ''availability_starts'') valid_from;
     pvu \<leftarrow> get offer_cfg (lit ''price_valid_until'') JNull;
     let price_valid_until = py_or pvu (JStr (default_price_valid_until e));
     price_currency \<leftarrow> get offer_cfg (lit ''price_currency'') (Str ''ARS'');
     eligible_region \<leftarrow> get offer_cfg (lit ''eligible_region'') (Str ''AR'');
     price \<leftarrow> get offer_cfg (lit ''price'') (Str ''0'');
     let offer = build_offer_node (ctx_page_url ctx) (JStr (ctx_page_url ctx @ lit ''#Offer''))
       [(Str ''priceCurrency'', price_currency),
        (Str ''areaServed'', area_served),
        (Str ''validFrom'', valid_from),
        (Str ''validThrough'', valid_through),
        (Str ''availabilityStarts'', availability_starts),
        (Str ''eligibleRegion'', eligible_region),
        (Str ''priceValidUntil'', price_valid_until),
        (Str ''price'', py_or price (Str ''0''))];
     let graph = graph @ [offer];
     brand_ref \<leftarrow> organization_reference (JDict provider);
     let brand_ref = AList.update (Str ''@type'') (Str ''Organization'') brand_ref;
     let product = build_product_node (ctx_page_url ctx)
       (JStr (ctx_page_url ctx @ lit ''#Product'')) (JStr (ctx_name ctx)) (ctx_image_url ctx)
       (ctx_aggregate_rating ctx) (ctx_description ctx)
       (Some [(Str ''url'', JStr (ctx_page_url ctx)),
              (Str ''brand'', JDict brand_ref),
              (Str ''offers'', JDict [(Str ''@id'', JStr (ctx_page_url ctx @ lit ''#Offer''))])]);
     let graph = graph @ [product];
     let faq_page = build_faq_page (ctx_page_url ctx) (ctx_faqs ctx)
                      (JStr (ctx_page_url ctx @ lit ''#FAQPage'')) None;
     let graph = append_faq_page graph faq_page;
     let graph = graph @ [build_webpage_node ctx None];
     (graph, added_orgs) \<leftarrow> append_organization graph provider added_orgs;
     Some graph
   }"

text \<open>The formatting of one rate in \<open>build_financial_product_graph\<close>:
  \<open>f"{value:.2f}".rstrip("0").rstrip(".")\<close> for a number (a boolean is an \<open>int\<close>),
  \<open>str(value)\<close> otherwise; a percent sign is added; then \<open>f"{code} {formatted}".strip()\<close>.\<close>

definition rstrip_char :: "nat \<Rightarrow> ustr \<Rightarrow> ustr" where
  "rstrip_char a s = rev (dropWhile (\<lambda>c. c = a) (rev s))"

definition is_number :: "json \<Rightarrow> bool" where
  "is_number v = (case v of JInt _ \<Rightarrow> True | JFloat _ \<Rightarrow> True | JBool _ \<Rightarrow> True | _ \<Rightarrow> False)"

definition rate_part :: "env \<Rightarrow> json \<times> json \<Rightarrow> ustr" where
  "rate_part e kv =
     (let formatted = (if is_number (snd kv)
                       then rstrip_char 0x2E (rstrip_char 0x30 (fmt_2f e (snd kv)))
                       else py_str e (snd kv));
          formatted = (if formatted \<noteq> [] \<and> (last formatted \<noteq> 0x25)
                       then formatted @ lit '' %'' else formatted)
      in py_strip (py_str e (fst kv) @ lit '' '' @ formatted))"

text \<open>\<open>today + timedelta(days=offset)\<close> for an offset read from a defaults table.\<close>

definition iso_offset :: "env \<Rightarrow> json \<Rightarrow> json option" where
  "iso_offset e offset =
     (case offset of
        JInt n \<Rightarrow> Some (JStr (iso_plus_days e n))
      | JBool b \<Rightarrow> Some (JStr (iso_plus_days e (if b then 1 else 0)))
      | _ \<Rightarrow> None)"

text \<open>\<open>build_financial_product_graph(ctx, financial_product_defaults)\<close>.\<close>

definition build_financial_product_graph ::
  "env \<Rightarrow> SchemaContext \<Rightarrow> pydict option \<Rightarrow> pydict list option" where
  "build_financial_product_graph e ctx financial_product_defaults = do {
     let graph = [];
     let added_orgs = {};
     let defaults = FINANCIAL_PRODUCT_DEFAULTS;
     let overrides = (case financial_product_defaults of Some d \<Rightarrow> d | None \<Rightarrow> []);
     let area_served = dget_or overrides (lit ''area_served'')
                         (dget_or defaults (lit ''area_served'') (Str ''AR''));
     let provider_defaults = dget_or defaults (lit ''provider'') (JDict []);
     let provider_overrides = dget_or overrides (lit ''provider'') (JDict []);
     provider_cfg \<leftarrow> (case provider_defaults of
                        JDict pd \<Rightarrow> deep_merge pd provider_overrides
                      | _ \<Rightarrow> None);
     default_org_key \<leftarrow> get provider_defaults (lit ''org_key'') (Str ''tarjeta_naranja'');
     provider \<leftarrow> (case default_org_key of
                    JStr k \<Rightarrow> resolve_organization (JDict provider_cfg) k
                  | _ \<Rightarrow> None);
     let rates = dget_or overrides (lit ''rates'') FINANCIAL_PRODUCT_ZERO_RATES;
     rate_items \<leftarrow> (case py_or rates (JDict []) of JDict r \<Rightarrow> Some r | _ \<Rightarrow> None);
     let rate_parts = map (rate_part e) rate_items;
     let rates_text = py_join (lit '', '') (filter (\<lambda>p. p \<noteq> []) rate_parts);
     let offer_defaults = dget_or defaults (lit ''offer'') (JDict []);
     let offer_overrides = dget_or overrides (lit ''offer'') (JDict []);
     valid_from \<leftarrow> get offer_overrides (lit ''valid_from'') JNull;
     valid_from \<leftarrow> (if \<not> truthy valid_from
                     then do { offset \<leftarrow> get offer_defaults (lit ''valid_from_offset'') (JInt 0);
                               iso_offset e offset }
                     else Some valid_from);
     valid_through \<leftarrow> get offer_overrides (lit ''valid_through'') JNull;
     valid_through \<leftarrow> (if \<not> truthy valid_through
                        then do { offset \<leftarrow> get offer_defaults (lit ''valid_through_offset'') (JInt 30);
                                  iso_offset e offset }
                        else Some valid_through);
     d_price_currency \<leftarrow> get offer_defaults (lit ''price_currency'') (Str ''ARS'');
     price_currency \<leftarrow> get offer_overrides (lit ''price_currency'') d_price_currency;
     d_billing_increment \<leftarrow> get offer_defaults (lit ''billing_increment'') (Str ''1'');
     billing_increment \<leftarrow> get offer_overrides (lit ''billing_increment'') d_billing_increment;
     d_min_price \<leftarrow> get offer_defaults (lit ''min_price'') (Str ''0'');
     min_price \<leftarrow> get offer_overrides (lit ''min_price'') d_min_price;
     d_offer_area_served \<leftarrow> get offer_defaults (lit ''area_served'') area_served;
     offer_area_served \<leftarrow> get offer_overrides (lit ''area_served'') d_offer_area_served;
     d_description_template \<leftarrow> get offer_defaults (lit ''description_template'')
        (JStr (lit ''Caracter'' @ [0xED] @ lit ''sticas financieras: {rates_text}.''));
     description_template \<leftarrow> get offer_overrides (lit ''description_template'') d_description_template;
     offer_description \<leftarrow> get offer_overrides (lit ''description'') JNull;
     offer_description \<leftarrow> (if \<not> truthy offer_description
                            then map_option JStr (str_format e description_template rates_text)
                            else Some offer_description);
     let identifier = dget_or overrides (lit ''identifier'') (dget defaults (lit ''identifier''));
     let identifier = (if \<not> truthy identifier
                       then (let sl = slug (ctx_name ctx) in if sl \<noteq> [] then JStr sl else JNull)
                       else identifier);
     let product_defaults = dget_or defaults (lit ''product'') (JDict []);
     let product_overrides = dget_or overrides (lit ''product'') (JDict []);
     d_product_id_suffix \<leftarrow> get product_defaults (lit ''id_suffix'') (Str ''#Product'');
     product_id_suffix \<leftarrow> get product_overrides (lit ''id_suffix'') d_product_id_suffix;
     product_id_override \<leftarrow> get product_overrides (lit ''id'') JNull;
     let product_id = py_or product_id_override
                        (JStr (ctx_page_url ctx @ py_str e product_id_suffix));
     d_product_name \<leftarrow> get product_defaults (lit ''name'') (JStr (ctx_name ctx));
     product_name_value \<leftarrow> get product_overrides (lit ''name'') d_product_name;
     let faq_id_suffix = dget_or overrides (lit ''faq_id_suffix'')
                           (dget_or defaults (lit ''faq_id_suffix'') (Str ''#FAQPage''));
     let faq_id = ctx_page_url ctx @ py_str e faq_id_suffix;
     let offer_id = ctx_page_url ctx @ lit ''#Offer'';
     provider_ref \<leftarrow> organization_reference (JDict provider);
     let financial_product =
       [(Str ''@type'', Str ''FinancialProduct''),
        (Str ''@id'', JStr (ctx_page_url ctx @ lit ''#FinancialProduct'')),
        (Str ''name'', JStr (ctx_name ctx)),
        (Str ''description'', opt_str (ctx_description ctx)),
        (Str ''areaServed'', area_served),
        (Str ''provider'', JDict provider_ref),
        (Str ''offers'', JDict [(Str ''@id'', JStr offer_id)])];
     let financial_product =
       (case ctx_image_url ctx of
          Some i \<Rightarrow> if i \<noteq> [] then AList.update (Str ''image'') (JStr i) financial_product
                    else financial_product
        | None \<Rightarrow> financial_product);
     let financial_product = (if truthy identifier
                              then AList.update (Str ''identifier'') identifier financial_product
                              else financial_product);
     let graph = graph @ [financial_product];
     (graph, added_orgs) \<leftarrow> append_organization graph provider added_orgs;
     let price_valid_until = default_price_valid_until e;
     let offer = build_offer_node (ctx_page_url ctx) (JStr offer_id)
       [(Str ''priceCurrency'', price_currency),
        (Str ''areaServed'', offer_area_served),
        (Str ''validFrom'', valid_from),
        (Str ''validThrough'', valid_through),
        (Str ''itemOffered'', JDict [(Str ''@id'', product_id)]),
        (Str ''priceValidUntil'', JStr price_valid_until),
        (Str ''price'', min_price),
        (Str ''priceSpecification'',
           JDict [(Str ''@type'', Str ''UnitPriceSpecification''),
                  (Str ''billingIncrement'', billing_increment),
                  (Str ''price'', min_price),
                  (Str ''priceCurrency'', price_currency),
                  (Str ''description'', offer_description)])];
     let graph = graph @ [offer];
     let product = build_product_node (ctx_page_url ctx) product_id product_name_value
       (ctx_image_url ctx) (ctx_aggregate_rating ctx) (ctx_description ctx)
       (Some [(Str ''url'', JStr (ctx_page_url ctx)),
              (Str ''offers'', JDict [(Str ''@id'', JStr offer_id)])]);
     let graph = graph @ [product];
     let faq_page = build_faq_page (ctx_page_url ctx) (ctx_faqs ctx) (JStr faq_id) None;
     let graph = append_faq_page graph faq_page;
     let graph = graph @ [build_webpage_node ctx None];
     Some graph
   }"


text \<open>\<open>{**a, **b}\<close> for a value \<open>b\<close> taken from an override (\<open>TypeError\<close> unless it is a
  mapping).\<close>

definition splat_merge :: "pydict \<Rightarrow> json \<Rightarrow> pydict option" where
  "splat_merge a b = (case b of JDict d \<Rightarrow> Some (dict_update a d) | _ \<Rightarrow> None)"

text \<open>\<open>build_investment_or_deposit_graph(ctx, investment_defaults)\<close>.\<close>

definition build_investment_or_deposit_graph ::
  "env \<Rightarrow> SchemaContext \<Rightarrow> pydict option \<Rightarrow> pydict list option" where
  "build_investment_or_deposit_graph e ctx investment_defaults = do {
     let graph = [];
     let added_orgs = {};
     let defaults = INVESTMENT_OR_DEPOSIT_DEFAULTS;
     let overrides = (case investment_defaults of Some d \<Rightarrow> d | None \<Rightarrow> []);
     let area_served = dget_or overrides (lit ''area_served'')
                         (dget_or defaults (lit ''area_served'') (Str ''AR''));
     let base_globals = dget_or defaults (lit ''globals'') (JDict []);
     let override_globals = dget_or overrides (lit ''globals'') (JDict []);
     combined_globals \<leftarrow> (case base_globals of
                            JDict bg \<Rightarrow> splat_merge bg override_globals
                          | _ \<Rightarrow> None);
     let provider_defaults = dget_or defaults (lit ''provider'') (JDict []);
     let provider_overrides = dget_or overrides (lit ''provider'') (JDict []);
     provider_cfg \<leftarrow> (case provider_defaults of
                        JDict pd \<Rightarrow> deep_merge pd provider_overrides
                      | _ \<Rightarrow> None);
     default_org_key \<leftarrow> get provider_defaults (lit ''org_key'') (Str ''naranja_x'');
     provider \<leftarrow> (case default_org_key of
                    JStr k \<Rightarrow> resolve_organization (JDict provider_cfg) k
                  | _ \<Rightarrow> None);
     let investment_defaults_cfg = dget_or defaults (lit ''investment'') (JDict []);
     let investment_overrides = dget_or overrides (lit ''investment'') (JDict []);
     d_types \<leftarrow> get investment_defaults_cfg (lit ''types'') (JList [Str ''InvestmentOrDeposit'']);
     investment_types \<leftarrow> get investment_overrides (lit ''types'') d_types;
     let investment_types = (case investment_types of
                               JStr s \<Rightarrow> JList [JStr s]
                             | _ \<Rightarrow> investment_types);
     d_investment_id_suffix \<leftarrow> get investment_defaults_cfg (lit ''id_suffix'') (Str ''#investment'');
     investment_id_suffix \<leftarrow> get investment_overrides (lit ''id_suffix'') d_investment_id_suffix;
     investment_id_override \<leftarrow> get investment_overrides (lit ''id'') JNull;
     let investment_id = py_or investment_id_override
                           (JStr (ctx_page_url ctx @ py_str e investment_id_suffix));
     d_alternate_name \<leftarrow> get investment_defaults_cfg (lit ''alternate_name'') JNull;
     investment_alternate_name \<leftarrow> get investment_overrides (lit ''alternate_name'') d_alternate_name;
     d_service_type \<leftarrow> get investment_defaults_cfg (lit ''service_type'') JNull;
     investment_service_type \<leftarrow> get investment_overrides (lit ''service_type'') d_service_type;
     d_audience \<leftarrow> get investment_defaults_cfg (lit ''audience'') JNull;
     investment_audience \<leftarrow> get investment_overrides (lit ''audience'') d_audience;
     d_identifier \<leftarrow> get investment_overrides (lit ''identifier'') JNull;
     let investment_identifier = dget_or overrides (lit ''identifier'') d_identifier;
     let investment_identifier =
           (if \<not> truthy investment_identifier
            then (let sl = slug (ctx_name ctx) in if sl \<noteq> [] then JStr sl else JNull)
            else investment_identifier);
     interest_rate_defaults \<leftarrow> get investment_defaults_cfg (lit ''interest_rate'') (JDict []);
     interest_rate_overrides \<leftarrow> get investment_overrides (lit ''interest_rate'') (JDict []);
     d_rate_type \<leftarrow> get interest_rate_defaults (lit ''type'') (Str ''QuantitativeValue'');
     interest_rate_type \<leftarrow> get interest_rate_overrides (lit ''type'') d_rate_type;
     d_rate_unit \<leftarrow> get interest_rate_defaults (lit ''unit_text'') (Str ''TNA'');
     interest_rate_unit \<leftarrow> get interest_rate_overrides (lit ''unit_text'') d_rate_unit;
     default_rate_value \<leftarrow> get interest_rate_defaults (lit ''value'')
                             (dget_or combined_globals (lit ''interest_rate'') (Str ''''));
     interest_rate_value \<leftarrow> get interest_rate_overrides (lit ''value'') default_rate_value;
     let offer_defaults_cfg = dget_or defaults (lit ''offer'') (JDict []);
     let offer_overrides = dget_or overrides (lit ''offer'') (JDict []);
     d_offer_id_suffix \<leftarrow> get offer_defaults_cfg (lit ''id_suffix'') (Str ''#offer'');
     offer_id_suffix \<leftarrow> get offer_overrides (lit ''id_suffix'') d_offer_id_suffix;
     offer_id_override \<leftarrow> get offer_overrides (lit ''id'') JNull;
     let offer_id = py_or offer_id_override (JStr (ctx_page_url ctx @ py_str e offer_id_suffix));
     d_price_currency \<leftarrow> get offer_defaults_cfg (lit ''price_currency'') (Str ''ARS'');
     offer_price_currency \<leftarrow> get offer_overrides (lit ''price_currency'') d_price_currency;
     d_offer_area_served \<leftarrow> get offer_defaults_cfg (lit ''area_served'') area_served;
     offer_area_served \<leftarrow> get offer_overrides (lit ''area_served'') d_offer_area_served;
     d_eligible_region \<leftarrow> get offer_defaults_cfg (lit ''eligible_region'') area_served;
     offer_eligible_region \<leftarrow> get offer_overrides (lit ''eligible_region'') d_eligible_region;
     d_availability \<leftarrow> get offer_defaults_cfg (lit ''availability'')
                         (Str ''https://schema.org/InStock'');
     offer_availability \<leftarrow> get offer_overrides (lit ''availability'') d_availability;
     valid_from \<leftarrow> get offer_overrides (lit ''valid_from'') JNull;
     valid_from \<leftarrow> (if \<not> truthy valid_from
                     then do { offset \<leftarrow> get offer_defaults_cfg (lit ''valid_from_offset'') (JInt 0);
                               iso_offset e offset }
                     else Some valid_from);
     valid_through \<leftarrow> get offer_overrides (lit ''valid_through'') JNull;
     valid_through \<leftarrow> (if \<not> truthy valid_through
                        then do { offset \<leftarrow> get offer_defaults_cfg (lit ''valid_through_offset'') (JInt 0);
                                  iso_offset e offset }
                        else Some valid_through);
     d_offer_name \<leftarrow> (if ctx_name ctx \<noteq> [] then Some (JStr (ctx_name ctx))
                       else get investment_overrides (lit ''name'') (JStr (ctx_name ctx)));
     offer_name \<leftarrow> get offer_overrides (lit ''name'') d_offer_name;
     eligible_duration \<leftarrow> get offer_overrides (lit ''eligible_duration'')
                            (dget_or combined_globals (lit ''duration'') (Str ''''));
     let offer_duration = py_or eligible_duration (Str '''');
     let product_defaults_cfg = dget_or defaults (lit ''product'') (JDict []);
     let product_overrides = dget_or overrides (lit ''product'') (JDict []);
     d_product_id_suffix \<leftarrow> get product_defaults_cfg (lit ''id_suffix'') (Str ''#product'');
     product_id_suffix \<leftarrow> get product_overrides (lit ''id_suffix'') d_product_id_suffix;
     product_id_override \<leftarrow> get product_overrides (lit ''id'') JNull;
     let product_id = py_or product_id_override
                        (JStr (ctx_page_url ctx @ py_str e product_id_suffix));
     let faq_id_suffix = dget_or overrides (lit ''faq_id_suffix'')
                           (dget_or defaults (lit ''faq_id_suffix'') (Str ''#FAQPage''));
     let faq_id = ctx_page_url ctx @ py_str e faq_id_suffix;
     let investment_node =
       [(Str ''@type'', investment_types),
        (Str ''@id'', investment_id),
        (Str ''name'', JStr (ctx_name ctx)),
        (Str ''description'', opt_str (ctx_description ctx)),
        (Str ''areaServed'', area_served),
        (Str ''mainEntityOfPage'', JStr (ctx_page_url ctx)),
        (Str ''provider'', JDict provider),
        (Str ''offers'', JDict [(Str ''@id'', offer_id)]),
        (Str ''interestRate'', JDict [(Str ''@type'', interest_rate_type),
                                      (Str ''unitText'', interest_rate_unit)])];
     let investment_node = (if truthy investment_alternate_name
                            then AList.update (Str ''alternateName'') investment_alternate_name
                                   investment_node
                            else investment_node);
     let investment_node = (if truthy investment_service_type
                            then AList.update (Str ''serviceType'') investment_service_type
                                   investment_node
                            else investment_node);
     let investment_node = (if truthy investment_audience
                            then AList.update (Str ''audience'') investment_audience investment_node
                            else investment_node);
     let investment_node =
       (case ctx_image_url ctx of
          Some i \<Rightarrow> if i \<noteq> [] then AList.update (Str ''image'') (JStr i) investment_node
                    else investment_node
        | None \<Rightarrow> investment_node);
     let investment_node = (if truthy investment_identifier
                            then AList.update (Str ''identifier'') investment_identifier
                                   investment_node
                            else investment_node);
     investment_node \<leftarrow>
       (if \<not> none_or_empty interest_rate_value
        then (case dget investment_node (lit ''interestRate'') of
                JDict ir \<Rightarrow> Some (AList.update (Str ''interestRate'')
                                    (JDict (AList.update (Str ''value'') interest_rate_value ir))
                                    investment_node)
              | _ \<Rightarrow> None)
        else Some investment_node);
     let graph = graph @ [investment_node];
     (graph, added_orgs) \<leftarrow> append_organization graph provider added_orgs;
     let price_valid_until = default_price_valid_until e;
     let offer = build_offer_node (ctx_page_url ctx) offer_id
       [(Str ''name'', offer_name),
        (Str ''priceCurrency'', offer_price_currency),
        (Str ''areaServed'', offer_area_served),
        (Str ''eligibleRegion'', offer_eligible_region),
        (Str ''availability'', offer_availability),
        (Str ''validFrom'', valid_from),
        (Str ''validThrough'', valid_through),
        (Str ''priceValidUntil'', JStr price_valid_until),
        (Str ''eligibleDuration'', offer_duration)];
     let graph = graph @ [offer];
     let product = build_product_node (ctx_page_url ctx) product_id (JStr (ctx_name ctx))
       (ctx_image_url ctx) (ctx_aggregate_rating ctx) (ctx_description ctx)
       (Some [(Str ''url'', JStr (ctx_page_url ctx)),
              (Str ''offers'', JDict [(Str ''@id'', offer_id)])]);
     let graph = graph @ [product];
     let faq_page = build_faq_page (ctx_page_url ctx) (ctx_faqs ctx) (JStr faq_id) None;
     let graph = append_faq_page graph faq_page;
     let graph = graph @ [build_webpage_node ctx None];
     Some graph
   }"

text \<open>\<open>build_insurance_agency_graph(ctx, insurance_defaults)\<close>.\<close>

definition build_insurance_agency_graph ::
  "env \<Rightarrow> SchemaContext \<Rightarrow> pydict option \<Rightarrow> pydict list option" where
  "build_insurance_agency_graph e ctx insurance_defaults = do {
     let graph = [];
     let added_orgs = {};
     let defaults = INSURANCE_AGENCY_DEFAULTS;
     let overrides = (case insurance_defaults of Some d \<Rightarrow> d | None \<Rightarrow> []);
     let agency_base = dget_or defaults (lit ''agency'') (JDict []);
     let agency_overrides = dget_or overrides (lit ''agency'') (JDict []);
     base_identifier \<leftarrow> get agency_base (lit ''identifier'') (JDict []);
     override_identifier \<leftarrow> get agency_overrides (lit ''identifier'') (JDict []);
     agency_identifier \<leftarrow> (case base_identifier of
                             JDict b \<Rightarrow> splat_merge b override_identifier
                           | _ \<Rightarrow> None);
     let agency_identifier =
           (if \<not> truthy (dget agency_identifier (lit ''propertyID''))
               \<or> \<not> truthy (dget agency_identifier (lit ''value''))
            then None else Some agency_identifier);
     base_logo \<leftarrow> get agency_base (lit ''logo'') (JDict []);
     override_logo \<leftarrow> get agency_overrides (lit ''logo'') (JDict []);
     agency_logo \<leftarrow> (case base_logo of JDict b \<Rightarrow> splat_merge b override_logo | _ \<Rightarrow> None);
     let agency_logo =
           (if \<not> truthy (dget agency_logo (lit ''url''))
            then (case ctx_image_url ctx of
                    Some i \<Rightarrow> if i \<noteq> [] then AList.update (Str ''url'') (JStr i) agency_logo
                              else agency_logo
                  | None \<Rightarrow> agency_logo)
            else agency_logo);
     d_same_as \<leftarrow> get agency_base (lit ''same_as'') (JList []);
     agency_same_as \<leftarrow> get agency_overrides (lit ''same_as'') d_same_as;
     let agency_same_as = (case agency_same_as of
                             JStr s \<Rightarrow> JList [JStr s]
                           | _ \<Rightarrow> agency_same_as);
     d_area_served \<leftarrow> get agency_base (lit ''area_served'') (Str ''AR'');
     let area_served = dget_or overrides (lit ''area_served'') d_area_served;
     d_addresses \<leftarrow> get agency_base (lit ''addresses'') JNull;
     let addresses = dget_or overrides (lit ''addresses'') d_addresses;
     d_agency_id_suffix \<leftarrow> get agency_base (lit ''id_suffix'') (Str ''#insurance-agency'');
     agency_id_suffix \<leftarrow> get agency_overrides (lit ''id_suffix'') d_agency_id_suffix;
     agency_id_override \<leftarrow> get agency_overrides (lit ''id'') JNull;
     let agency_id = py_or agency_id_override
                       (JStr (ctx_page_url ctx @ py_str e agency_id_suffix));
     let agency_node =
       [(Str ''@type'', Str ''InsuranceAgency''),
        (Str ''@id'', agency_id),
        (Str ''name'', JStr (ctx_name ctx)),
        (Str ''description'', opt_str (ctx_description ctx)),
        (Str ''areaServed'', area_served),
        (Str ''url'', JStr (ctx_page_url ctx))];
     let agency_node = attach_node (lit ''identifier'') agency_identifier agency_node;
     let agency_node = (if agency_logo \<noteq> []
                        then AList.update (Str ''logo'') (JDict agency_logo) agency_node
                        else agency_node);
     let agency_node = (if truthy addresses
                        then AList.update (Str ''address'') addresses agency_node
                        else agency_node);
     let agency_node = (if truthy agency_same_as
                        then AList.update (Str ''sameAs'') agency_same_as agency_node
                        else agency_node);
     let graph = graph @ [agency_node];
     let offer_defaults = dget_or defaults (lit ''offer'') (JDict []);
     let offer_overrides = dget_or overrides (lit ''offer'') (JDict []);
     d_offer_id_suffix \<leftarrow> get offer_defaults (lit ''id_suffix'') (Str ''#offer'');
     offer_id_suffix \<leftarrow> get offer_overrides (lit ''id_suffix'') d_offer_id_suffix;
     offer_id_override \<leftarrow> get offer_overrides (lit ''id'') JNull;
     let offer_id = py_or offer_id_override (JStr (ctx_page_url ctx @ py_str e offer_id_suffix));
     d_offer_name \<leftarrow> get offer_defaults (lit ''name'') (JStr (ctx_name ctx));
     offer_name \<leftarrow> get offer_overrides (lit ''name'') d_offer_name;
     d_price_currency \<leftarrow> get offer_defaults (lit ''price_currency'') (Str ''ARS'');
     offer_price_currency \<leftarrow> get offer_overrides (lit ''price_currency'') d_price_currency;
     d_availability \<leftarrow> get offer_defaults (lit ''availability'') (Str ''https://schema.org/InStock'');
     offer_availability \<leftarrow> get offer_overrides (lit ''availability'') d_availability;
     d_offer_area_served \<leftarrow> get offer_defaults (lit ''area_served'') (Str ''AR'');
     offer_area_served \<leftarrow> get offer_overrides (lit ''area_served'') d_offer_area_served;
     d_eligible_region \<leftarrow> get offer_defaults (lit ''eligible_region'') (Str ''AR'');
     offer_eligible_region \<leftarrow> get offer_overrides (lit ''eligible_region'') d_eligible_region;
     d_price \<leftarrow> get offer_defaults (lit ''price'') (Str ''0'');
     price \<leftarrow> get offer_overrides (lit ''price'') d_price;
     let offer_price = py_or price (Str ''0'');
     pvu \<leftarrow> get offer_overrides (lit ''price_valid_until'') JNull;
     let price_valid_until = py_or pvu (JStr (default_price_valid_until e));
     let offer = build_offer_node (ctx_page_url ctx) offer_id
       [(Str ''name'', offer_name),
        (Str ''priceCurrency'', offer_price_currency),
        (Str ''availability'', offer_availability),
        (Str ''areaServed'', offer_area_served),
        (Str ''eligibleRegion'', offer_eligible_region),
        (Str ''priceValidUntil'', price_valid_until),
        (Str ''price'', offer_price)];
     let graph = graph @ [offer];
     let product_defaults = dget_or defaults (lit ''product'') (JDict []);
     let product_overrides = dget_or overrides (lit ''product'') (JDict []);
     d_product_id_suffix \<leftarrow> get product_defaults (lit ''id_suffix'') (Str ''#producto'');
     product_id_suffix \<leftarrow> get product_overrides (lit ''id_suffix'') d_product_id_suffix;
     product_id_override \<leftarrow> get product_overrides (lit ''id'') JNull;
     let product_id = py_or product_id_override
                        (JStr (ctx_page_url ctx @ py_str e product_id_suffix));
     let product = build_product_node (ctx_page_url ctx) product_id (JStr (ctx_name ctx))
       (ctx_image_url ctx) (ctx_aggregate_rating ctx) (ctx_description ctx)
       (Some [(Str ''url'', JStr (ctx_page_url ctx)),
              (Str ''offers'', JDict [(Str ''@id'', offer_id)])]);
     d_category \<leftarrow> get product_defaults (lit ''category'') JNull;
     product_category \<leftarrow> get product_overrides (lit ''category'') d_category;
     let product = (if truthy product_category
                    then AList.update (Str ''category'') product_category product
                    else product);
     let graph = graph @ [product];
     let faq_page = build_faq_page (ctx_page_url ctx) (ctx_faqs ctx)
                      (JStr (ctx_page_url ctx @ lit ''#FAQPage'')) None;
     let graph = append_faq_page graph faq_page;
     let graph = graph @ [build_webpage_node ctx None];
     org \<leftarrow> resolve_organization (JDict [(Str ''@id'', agency_id)]) (lit ''naranja_x'');
     (graph, added_orgs) \<leftarrow> append_organization graph org added_orgs;
     Some graph
   }"


section \<open>Offer catalogs (config.py, schema/builders.py)\<close>

definition OFFER_CATALOGS :: "(ustr \<times> pydict) list" where
  "OFFER_CATALOGS =
     [(lit ''prestamos'',
       [(Str ''name'', JStr (lit ''Cat'' @ [0xE1] @ lit ''logo de Pr'' @ [0xE9] @ lit ''stamos'')),
              (Str ''items'', JList [JDict [(Str ''name'', JStr (lit ''Pr'' @ [0xE9] @ lit ''stamos para monotributistas'')),
                            (Str ''url'', Str ''https://www.naranjax.com/prestamos/monotributistas''),
                            (Str ''id_suffix'', Str ''#LoanOrCredit'')],
                     JDict [(Str ''name'', JStr (lit ''Pr'' @ [0xE9] @ lit ''stamos express'')),
                            (Str ''url'', Str ''https://www.naranjax.com/prestamos/express''),
                            (Str ''id_suffix'', Str ''#LoanOrCredit'')],
                     JDict [(Str ''name'', JStr (lit ''Pr'' @ [0xE9] @ lit ''stamos para viajes'')),
                            (Str ''url'', Str ''https://www.naranjax.com/prestamos/viajes''),
                            (Str ''id_suffix'', Str ''#LoanOrCredit'')]])]),
      (lit ''tarjeta_credito'',
       [(Str ''name'', JStr (lit ''Cat'' @ [0xE1] @ lit ''logo de Tarjetas de Cr'' @ [0xE9] @ lit ''dito'')),
              (Str ''items'', JList [JDict [(Str ''name'', Str ''Tarjeta Naranja X''),
                            (Str ''url'', Str ''https://www.naranjax.com/tarjetas-de-credito/tarjeta-naranja''),
                            (Str ''id_suffix'', Str ''#PaymentCard'')],
                     JDict [(Str ''name'', Str ''Tarjeta Naranja X Visa''),
                            (Str ''url'', Str ''https://www.naranjax.com/tarjetas-de-credito/tarjeta-naranja-visa''),
                            (Str ''id_suffix'', Str ''#PaymentCard'')],
                     JDict [(Str ''name'', Str ''Tarjeta Naranja X Mastercard''),
                            (Str ''url'', Str ''https://www.naranjax.com/tarjetas-de-credito/tarjeta-naranja-mastercard''),
                            (Str ''id_suffix'', Str ''#PaymentCard'')]])]),
      (lit ''seguros'',
       [(Str ''name'', JStr (lit ''Cat'' @ [0xE1] @ lit ''logo de Seguros'')),
              (Str ''items'', JList [JDict [(Str ''name'', Str ''Seguro de Vida''),
                            (Str ''url'', Str ''https://www.naranjax.com/seguros/vida''),
                            (Str ''id_suffix'', Str ''#producto'')],
                     JDict [(Str ''name'', Str ''Seguro para Celulares''),
                            (Str ''url'', Str ''https://www.naranjax.com/seguros/celulares''),
                            (Str ''id_suffix'', Str ''#producto'')],
                     JDict [(Str ''name'', Str ''Seguro para Hogar''),
                            (Str ''url'', Str ''https://www.naranjax.com/seguros/hogar''),
                            (Str ''id_suffix'', Str ''#producto'')]])]),
      (lit ''cuenta'',
       [(Str ''name'', JStr (lit ''Cat'' @ [0xE1] @ lit ''logo de Cuentas'')),
              (Str ''items'', JList [JDict [(Str ''name'', Str ''Cuenta Remunerada''),
                            (Str ''url'', Str ''https://www.naranjax.com/cuenta-remunerada''),
                            (Str ''id_suffix'', Str ''#bankaccount'')],
                     JDict [(Str ''name'', JStr (lit ''Cuenta en D'' @ [0xF3] @ lit ''lares'')),
                            (Str ''url'', Str ''https://www.naranjax.com/cuenta-dolar''),
                            (Str ''id_suffix'', Str ''#bankaccount'')],
                     JDict [(Str ''name'', Str ''Caja de Ahorro''),
                            (Str ''url'', Str ''https://www.naranjax.com/cuentagratuitauniversal''),
                            (Str ''id_suffix'', Str ''#bankaccount'')]])])]"

text \<open>\<open>str(n)\<close> for a natural number, in decimal.\<close>

function dec :: "nat \<Rightarrow> ustr" where
  "dec n = (if n < 10 then [0x30 + n] else dec (n div 10) @ [0x30 + n mod 10])"
  by pat_completeness auto
termination
  by (relation "measure id") auto

text \<open>
  One iteration of the loop of \<open>build_offer_catalog_node\<close> over the enumerated items:
  the outer \<open>None\<close> is an exception, \<open>Some None\<close> is \<open>continue\<close>, \<open>Some (Some offer)\<close>
  is \<open>item_list.append(offer)\<close>.
\<close>

definition catalog_offer :: "env \<Rightarrow> ustr \<Rightarrow> pydict \<Rightarrow> nat \<times> json \<Rightarrow> json option option" where
  "catalog_offer e node_id catalog idx_item =
     (case snd idx_item of
        JDict item \<Rightarrow>
          let name = dget item (lit ''name'');
              url = dget item (lit ''url'')
          in if \<not> truthy name \<or> \<not> truthy url then Some None
             else
               let offer_id = node_id @ lit ''-Offer'' @ dec (fst idx_item);
                   item_id_override = py_or (dget item (lit ''item_id'')) (dget item (lit ''@id''));
                   id_suffix = dget item (lit ''id_suffix'');
                   item_type = dget_or item (lit ''item_type'') (Str ''Product'');
                   item_offered =
                     (if truthy item_id_override then [(Str ''@id'', item_id_override)]
                      else if truthy id_suffix \<and> truthy url
                      then [(Str ''@id'', JStr (py_str e url @ py_str e id_suffix))]
                      else (let io = [(Str ''@type'', item_type), (Str ''name'', name)]
                            in if truthy url then AList.update (Str ''url'') url io else io));
                   offer_props = (case dget item (lit ''offer'') of JDict p \<Rightarrow> p | _ \<Rightarrow> []);
                   offer_price = dget_or offer_props (lit ''price'')
                                   (dget_or catalog (lit ''default_price'') (Str ''0''));
                   offer_price = (if none_or_empty offer_price then Str ''0'' else offer_price);
                   offer_currency =
                     py_or (dget offer_props (lit ''priceCurrency''))
                       (py_or (dget offer_props (lit ''price_currency''))
                          (dget_or catalog (lit ''price_currency'') (Str ''ARS'')));
                   offer_availability =
                     py_or (dget offer_props (lit ''availability''))
                       (dget_or catalog (lit ''availability'') (Str ''https://schema.org/InStock''));
                   offer_price_valid_until =
                     py_or (dget offer_props (lit ''priceValidUntil''))
                       (py_or (dget offer_props (lit ''price_valid_until''))
                          (dget catalog (lit ''price_valid_until'')));
                   offer_price_valid_until =
                     (if \<not> truthy offer_price_valid_until then JStr (default_price_valid_until e)
                      else offer_price_valid_until)
               in Some (Some (JDict
                    [(Str ''@type'', Str ''Offer''),
                     (Str ''@id'', JStr offer_id),
                     (Str ''name'', name),
                     (Str ''price'', offer_price),
                     (Str ''priceCurrency'', offer_currency),
                     (Str ''availability'', offer_availability),
                     (Str ''priceValidUntil'', offer_price_valid_until),
                     (Str ''itemOffered'', JDict item_offered),
                     (Str ''url'', url)]))
      | _ \<Rightarrow> None)"

text \<open>The loop: the offers in order, or \<open>None\<close> when an iteration raises.\<close>

fun catalog_offers :: "env \<Rightarrow> ustr \<Rightarrow> pydict \<Rightarrow> (nat \<times> json) list \<Rightarrow> json list option" where
  "catalog_offers e node_id catalog [] = Some []"
| "catalog_offers e node_id catalog (x # xs) =
     (case catalog_offer e node_id catalog x of
        None \<Rightarrow> None
      | Some r \<Rightarrow>
          (case catalog_offers e node_id catalog xs of
             None \<Rightarrow> None
           | Some rest \<Rightarrow> Some ((case r of Some offer \<Rightarrow> [offer] | None \<Rightarrow> []) @ rest)))"

text \<open>\<open>build_offer_catalog_node(page_url, catalog_key)\<close>: the pair of the catalog node
  and the provider organization, each of which can be \<open>None\<close>.\<close>

definition build_offer_catalog_node ::
  "env \<Rightarrow> ustr \<Rightarrow> ustr \<Rightarrow> (pydict option \<times> pydict option) option" where
  "build_offer_catalog_node e url catalog_key =
     (case map_of OFFER_CATALOGS catalog_key of
        None \<Rightarrow> Some (None, None)
      | Some catalog \<Rightarrow>
          if catalog = [] then Some (None, None)
          else do {
            name \<leftarrow> map_of catalog (Str ''name'');
            name_text \<leftarrow> (case name of JStr s \<Rightarrow> Some s | _ \<Rightarrow> None);
            let node_id_suffix = (if slug name_text \<noteq> [] then slug name_text else catalog_key);
            let node_id = url @ lit ''#OfferCatalog'' @ node_id_suffix;
            items \<leftarrow> iterate (dget_or catalog (lit ''items'') (JList []));
            item_list \<leftarrow> catalog_offers e node_id catalog (zip [1..<Suc (length items)] items);
            if item_list = [] then Some (None, None)
            else do {
              let catalog_node =
                [(Str ''@type'', Str ''OfferCatalog''),
                 (Str ''@id'', JStr node_id),
                 (Str ''name'', name),
                 (Str ''itemListElement'', JList item_list)];
              let provider_key = dget_or catalog (lit ''provider'') (Str ''naranja_x'');
              provider_org \<leftarrow> (if \<not> hashable provider_key then None
                               else Some (case provider_key of
                                            JStr k \<Rightarrow> map_of ORGANIZATIONS k
                                          | _ \<Rightarrow> None));
              Some (Some catalog_node,
                    case provider_org of
                      Some org \<Rightarrow> if org \<noteq> [] then Some org else None
                    | None \<Rightarrow> None)
            }
          })"


section \<open>The registry and the workflow (schema/builders.py, service/workflow.py)\<close>

text \<open>
  The keyword arguments of \<open>build_schema_from_url\<close>.
\<close>

text \<open>The fields carry the prefix \<open>arg_\<close>, those of the fetched page the prefix \<open>page_\<close>.\<close>

record build_args =
  arg_price_spec :: "pydict option"
  arg_bank_defaults :: "pydict option"
  arg_payment_service_defaults :: "pydict option"
  arg_insurance_defaults :: "pydict option"
  arg_loan_defaults :: "pydict option"
  arg_financial_product_defaults :: "pydict option"
  arg_investment_defaults :: "pydict option"
  arg_blog_defaults :: "pydict option"
  arg_offer_catalog_key :: "ustr option"
  arg_aggregate_rating :: "pydict option"

text \<open>
  \<open>SCHEMA_BUILDERS\<close>.  Every builder is called with the context and all the keyword
  arguments, and takes the ones it names.
\<close>

type_synonym builder = "env \<Rightarrow> SchemaContext \<Rightarrow> build_args \<Rightarrow> pydict list option"

definition SCHEMA_BUILDERS :: "(ustr \<times> builder) list" where
  "SCHEMA_BUILDERS =
     [(lit ''payment_card'', \<lambda>e ctx a. build_payment_card_graph e ctx),
      (lit ''loan_or_credit'',
         \<lambda>e ctx a. build_loan_or_credit_graph e ctx (arg_price_spec a) (arg_loan_defaults a)),
      (lit ''bank_account'', \<lambda>e ctx a. build_bank_account_graph e ctx (arg_bank_defaults a)),
      (lit ''payment_service'',
         \<lambda>e ctx a. build_payment_service_graph e ctx (arg_payment_service_defaults a)),
      (lit ''investment_or_deposit'',
         \<lambda>e ctx a. build_investment_or_deposit_graph e ctx (arg_investment_defaults a)),
      (lit ''insurance_agency'',
         \<lambda>e ctx a. build_insurance_agency_graph e ctx (arg_insurance_defaults a)),
      (lit ''financial_product'',
         \<lambda>e ctx a. build_financial_product_graph e ctx (arg_financial_product_defaults a)),
      (lit ''blog_posting'', \<lambda>e ctx a. build_blog_posting_graph e ctx (arg_blog_defaults a))]"

text \<open>
  \<open>_schema_type_key(schema_type)\<close>.  \<open>re.sub(r"(?<!^)(?=[A-Z])", "_", s)\<close> puts an
  underscore before every letter \<open>A\<close> to \<open>Z\<close> that is not the first character.
  \<open>str.lower\<close> maps \<open>A\<close> to \<open>Z\<close> to \<open>a\<close> to \<open>z\<close> and leaves the other ASCII characters;
  what it does to a character outside ASCII is the library's (it can depend on the
  neighbours and give more than one character), and is the parameter \<open>lower_at\<close>,
  which takes the string and the position.
\<close>

definition is_upper :: "nat \<Rightarrow> bool" where
  "is_upper c = (0x41 \<le> c \<and> c \<le> 0x5A)"

fun underscore_upper :: "ustr \<Rightarrow> ustr" where
  "underscore_upper [] = []"
| "underscore_upper (c # cs) = (if is_upper c then 0x5F # c # underscore_upper cs
                                else c # underscore_upper cs)"

definition camel_sub :: "ustr \<Rightarrow> ustr" where
  "camel_sub s = (case s of [] \<Rightarrow> [] | c # cs \<Rightarrow> c # underscore_upper cs)"

definition py_lower :: "(ustr \<Rightarrow> nat \<Rightarrow> ustr) \<Rightarrow> ustr \<Rightarrow> ustr" where
  "py_lower lower_at s =
     concat (map (\<lambda>i. if s ! i < 0x80
                       then [if is_upper (s ! i) then s ! i + 0x20 else s ! i]
                       else lower_at s i)
               [0..<length s])"

definition schema_type_key :: "(ustr \<Rightarrow> nat \<Rightarrow> ustr) \<Rightarrow> ustr \<Rightarrow> ustr" where
  "schema_type_key lower_at schema_type =
     py_strip (replace_char 0x2D 0x5F (py_lower lower_at (camel_sub schema_type)))"

text \<open>
  What \<open>build_schema_from_url\<close> has after fetching and parsing the page: the final
  URL, the three strings of \<open>extract_basic_meta\<close>, the document the FAQ extraction
  reads, and the flat text of the body node (empty when there is none).
\<close>

record fetched_page =
  page_final_url :: ustr
  page_meta_title :: ustr
  page_meta_description :: ustr
  page_meta_image :: ustr
  page_soup :: document
  page_flat_body_text :: ustr

record ExtractionResult =
  er_title :: ustr
  er_description :: ustr
  er_image :: ustr
  er_faqs :: "faq list"
  er_body_text :: ustr

record SchemaRecord =
  sr_url :: ustr
  sr_name :: ustr
  sr_schema_type :: ustr
  sr_extracted :: ExtractionResult
  sr_schema :: pydict

text \<open>
  The exceptions that leave \<open>build_schema_from_url\<close>: the \<open>ValueError\<close> for an unknown
  schema type, with the type as given, and whatever a builder or the catalog raises.
\<close>

datatype error = ValueError ustr | BuilderError

text \<open>The catalog part of the workflow: \<open>graph_nodes\<close> after \<open>if offer_catalog_key:\<close>.\<close>

definition attach_catalog :: "env \<Rightarrow> ustr \<Rightarrow> ustr option \<Rightarrow> pydict list \<Rightarrow> pydict list option" where
  "attach_catalog e url key graph_nodes =
     (case key of
        None \<Rightarrow> Some graph_nodes
      | Some k \<Rightarrow>
          if k = [] then Some graph_nodes
          else (case build_offer_catalog_node e url k of
                  None \<Rightarrow> None
                | Some (None, provider_org) \<Rightarrow> Some graph_nodes
                | Some (Some catalog_node, provider_org) \<Rightarrow>
                    if catalog_node = [] then Some graph_nodes
                    else let graph_nodes = graph_nodes @ [catalog_node]
                         in (case provider_org of
                               None \<Rightarrow> Some graph_nodes
                             | Some org \<Rightarrow>
                                 if org \<noteq> [] \<and> truthy (dget org (lit ''@id''))
                                 then (let ids = filter truthy
                                                   (map (\<lambda>node. dget node (lit ''@id'')) graph_nodes)
                                       in if \<exists>i \<in> set ids. \<not> hashable i then None
                                          else (case map_of org (Str ''@id'') of
                                                  None \<Rightarrow> None
                                                | Some org_id \<Rightarrow>
                                                    if \<not> hashable org_id then None
                                                    else if hash_key org_id \<notin> hash_key ` set ids
                                                    then Some (graph_nodes @ [org])
                                                    else Some graph_nodes))
                                 else Some graph_nodes)))"

text \<open>\<open>build_schema_from_url(url, nombre, schema_type, ...)\<close>, from the fetched page on.\<close>

definition build_schema_from_url ::
  "env \<Rightarrow> (ustr \<Rightarrow> ustr) \<Rightarrow> (ustr \<Rightarrow> nat \<Rightarrow> ustr) \<Rightarrow> fetched_page \<Rightarrow> ustr \<Rightarrow> ustr \<Rightarrow> build_args
     \<Rightarrow> error + SchemaRecord" where
  "build_schema_from_url e nfkc lower_at page nombre schema_type args =
     (let faqs = extract_faqs nfkc (page_soup page);
          body_text = page_flat_body_text page;
          image_url = page_meta_image page;
          description_text = page_meta_description page;
          agg_source = (case arg_aggregate_rating args of Some r \<Rightarrow> r | None \<Rightarrow> DEFAULT_AGG_RATING);
          agg_rating = (if agg_source \<noteq> [] then Some agg_source else None);
          agg_rating = (case agg_rating of
                          None \<Rightarrow> None
                        | Some r \<Rightarrow> Some (case map_of r (Str ''@type'') of
                                             Some t \<Rightarrow> r
                                           | None \<Rightarrow> r @ [(Str ''@type'', Str ''AggregateRating'')]));
          key = schema_type_key lower_at schema_type
      in case map_of SCHEMA_BUILDERS key of
           None \<Rightarrow> Inl (ValueError schema_type)
         | Some builder \<Rightarrow>
             let context = \<lparr>ctx_page_url = page_final_url page,
                            ctx_name = nombre,
                            ctx_description = Some description_text,
                            ctx_image_url = (if image_url \<noteq> [] then Some image_url else None),
                            ctx_faqs = faqs,
                            ctx_body_text = (if body_text \<noteq> [] then Some body_text else None),
                            ctx_aggregate_rating = agg_rating\<rparr>
             in case builder e context args of
                  None \<Rightarrow> Inl BuilderError
                | Some graph_nodes \<Rightarrow>
                    (case attach_catalog e (ctx_page_url context) (arg_offer_catalog_key args)
                            graph_nodes of
                       None \<Rightarrow> Inl BuilderError
                     | Some graph_nodes \<Rightarrow>
                         Inr \<lparr>sr_url = page_final_url page,
                              sr_name = nombre,
                              sr_schema_type = schema_type,
                              sr_extracted = \<lparr>er_title = page_meta_title page,
                                               er_description = description_text,
                                               er_image = image_url,
                                               er_faqs = faqs,
                                               er_body_text = body_text\<rparr>,
                              sr_schema = [(Str ''@context'', Str ''https://schema.org''),
                                           (Str ''@graph'', JList (map JDict graph_nodes))]\<rparr>))"

section \<open>Properties of the text normaliser\<close>

lemma lit_eq_iff [simp]: "lit a = lit b \<longleftrightarrow> a = b"
  by (simp add: lit_def inj_map_eq_map inj_on_def)

lemma lit_Nil_iff [simp]: "lit a = [] \<longleftrightarrow> a = []" "[] = lit a \<longleftrightarrow> a = []"
  by (auto simp: lit_def)

lemma is_space_32: "is_space 32"
  by (simp add: is_space_def)

lemma dropWhile_hd_not: "dropWhile P xs = y # ys \<Longrightarrow> \<not> P y"
  using hd_dropWhile[of P xs] by auto

lemma whitespace_sub_hd:
  "whitespace_sub s = y # ys \<Longrightarrow> s \<noteq> [] \<and> (if is_space (hd s) then y = 32 else y = hd s)"
  by (cases s) (auto split: if_splits)

lemma ws_single: "single_spaced (whitespace_sub s)"
proof (induction s rule: whitespace_sub.induct)
  case 1 show ?case by simp
next
  case (2 c cs)
  show ?case
  proof (cases "is_space c")
    case True
    let ?r = "whitespace_sub (dropWhile is_space cs)"
    have ih: "single_spaced ?r" using 2 True by simp
    show ?thesis
    proof (cases ?r)
      case Nil then show ?thesis using True by (simp add: is_space_32)
    next
      case (Cons y ys)
      from whitespace_sub_hd[OF Cons] obtain d ds where d: "dropWhile is_space cs = d # ds"
        and y: "(if is_space d then y = 32 else y = d)" by (cases "dropWhile is_space cs") auto
      from dropWhile_hd_not[OF d] y have "\<not> is_space y" by simp
      then show ?thesis using True ih Cons by (simp add: is_space_32)
    qed
  next
    case False
    then show ?thesis using 2 by (cases "whitespace_sub cs") auto
  qed
qed

lemma ws_fixed: "single_spaced s \<Longrightarrow> whitespace_sub s = s"
proof (induction s rule: single_spaced.induct)
  case 1 show ?case by simp
next
  case (2 c) then show ?case by (simp split: if_splits)
next
  case (3 c d cs)
  then show ?case by (auto split: if_splits)
qed

lemma ws_set: "set (whitespace_sub s) \<subseteq> insert 32 (set s)"
proof (induction s rule: whitespace_sub.induct)
  case 1 show ?case by simp
next
  case (2 c cs)
  have "set (dropWhile is_space cs) \<subseteq> set cs" by (simp add: set_dropWhileD subsetI)
  then show ?case using 2 by (auto split: if_splits)
qed

lemma ws_filter:
  "filter (\<lambda>c. \<not> is_space c) (whitespace_sub s) = filter (\<lambda>c. \<not> is_space c) s"
proof (induction s rule: whitespace_sub.induct)
  case 1 show ?case by simp
next
  case (2 c cs)
  have "filter (\<lambda>c. \<not> is_space c) (dropWhile is_space cs) = filter (\<lambda>c. \<not> is_space c) cs"
    by (induction cs) auto
  then show ?case using 2 by (auto simp: is_space_32)
qed

lemma single_spaced_all: "single_spaced s \<Longrightarrow> c \<in> set s \<Longrightarrow> is_space c \<Longrightarrow> c = 32"
  by (induction s rule: single_spaced.induct) (auto split: if_splits)

lemma single_spaced_tl: "single_spaced (c # s) \<Longrightarrow> single_spaced s"
  by (cases s) auto

lemma single_spaced_dropWhile: "single_spaced s \<Longrightarrow> single_spaced (dropWhile P s)"
  by (induction s) (auto dest: single_spaced_tl)

lemma single_spaced_append1: "single_spaced (s @ t) \<Longrightarrow> single_spaced s"
proof (induction s rule: single_spaced.induct)
  case 1 show ?case by simp
next
  case (2 c) then show ?case by (cases t) (auto split: if_splits)
next
  case (3 c d cs) then show ?case by (auto split: if_splits)
qed

lemma strip_decomp: "\<exists>t. dropWhile is_space s = py_strip s @ t"
proof -
  let ?d = "dropWhile is_space s"
  have "rev ?d = takeWhile is_space (rev ?d) @ dropWhile is_space (rev ?d)" by simp
  then have "?d = rev (dropWhile is_space (rev ?d)) @ rev (takeWhile is_space (rev ?d))"
    by (metis rev_append rev_rev_ident)
  then show ?thesis unfolding py_strip_def by blast
qed

lemma strip_single: "single_spaced s \<Longrightarrow> single_spaced (py_strip s)"
  using strip_decomp[of s] single_spaced_dropWhile[of s is_space] single_spaced_append1
  by metis

lemma strip_hd: "py_strip s \<noteq> [] \<Longrightarrow> \<not> is_space (hd (py_strip s))"
proof -
  assume ne: "py_strip s \<noteq> []"
  obtain t where t: "dropWhile is_space s = py_strip s @ t" using strip_decomp by blast
  then have "hd (py_strip s) = hd (dropWhile is_space s)" using ne by simp
  moreover have "dropWhile is_space s \<noteq> []" using t ne by auto
  ultimately show ?thesis using hd_dropWhile[of is_space s] by simp
qed

lemma strip_last: "py_strip s \<noteq> [] \<Longrightarrow> \<not> is_space (last (py_strip s))"
proof -
  assume ne: "py_strip s \<noteq> []"
  let ?r = "dropWhile is_space (rev (dropWhile is_space s))"
  have r: "?r \<noteq> []" using ne by (simp add: py_strip_def)
  then have "\<not> is_space (hd ?r)" using hd_dropWhile by blast
  moreover have "last (py_strip s) = hd ?r" using r by (simp add: py_strip_def last_rev)
  ultimately show ?thesis by simp
qed

lemma strip_set: "set (py_strip s) \<subseteq> set s"
  unfolding py_strip_def by (auto dest!: set_dropWhileD)

lemma strip_fixed:
  assumes "s = [] \<or> (\<not> is_space (hd s) \<and> \<not> is_space (last s))"
  shows "py_strip s = s"
proof (cases s)
  case Nil then show ?thesis by (simp add: py_strip_def)
next
  case (Cons c cs)
  then have a: "\<not> is_space (hd s)" and b: "\<not> is_space (last s)" using assms by auto
  have 1: "dropWhile is_space s = s" using a Cons by simp
  have "hd (rev s) = last s" using Cons by (simp add: hd_rev)
  then have 2: "dropWhile is_space (rev s) = rev s"
    using b by (simp add: dropWhile_eq_self_iff)
  show ?thesis by (simp add: py_strip_def 1 2)
qed

lemma strip_filter:
  "filter (\<lambda>c. \<not> is_space c) (py_strip s) = filter (\<lambda>c. \<not> is_space c) s"
proof -
  have d: "filter (\<lambda>c. \<not> is_space c) (dropWhile is_space t) = filter (\<lambda>c. \<not> is_space c) t"
    for t by (induction t) auto
  show ?thesis
    unfolding py_strip_def
    by (metis (mono_tags, lifting) d rev_filter rev_rev_ident)
qed

lemma clean_text_post:
  "clean_text nf v = post_normalize (nf (case v of None \<Rightarrow> [] | Some s \<Rightarrow> s))"
  by (simp add: clean_text_def post_normalize_def)

lemma post_single: "single_spaced (post_normalize s)"
  by (simp add: post_normalize_def strip_single ws_single)

lemma post_no_zwsp: "8203 \<notin> set (post_normalize s)"
proof -
  have "set (post_normalize s) \<subseteq> insert 32 (set (remove_char 0x200B (replace_char 0xA0 0x20 s)))"
    unfolding post_normalize_def using strip_set ws_set by blast
  then show ?thesis by (auto simp: remove_char_def)
qed

lemma post_no_nbsp: "160 \<notin> set (post_normalize s)"
  using single_spaced_all[OF post_single, of 160 s] by (auto simp: is_space_def)

lemma post_ends:
  "post_normalize s = [] \<or>
   (\<not> is_space (hd (post_normalize s)) \<and> \<not> is_space (last (post_normalize s)))"
  unfolding post_normalize_def using strip_hd strip_last by blast

lemma post_idem: "post_normalize (post_normalize s) = post_normalize s"
proof -
  let ?p = "post_normalize s"
  have 1: "replace_char 0xA0 0x20 ?p = ?p"
    unfolding replace_char_def by (rule map_idI) (use post_no_nbsp[of s] in auto)
  have 2: "remove_char 0x200B ?p = ?p"
    using post_no_zwsp[of s] by (auto simp: remove_char_def filter_id_conv)
  have 3: "whitespace_sub ?p = ?p" by (rule ws_fixed[OF post_single])
  have 4: "py_strip ?p = ?p" by (rule strip_fixed[OF post_ends])
  show ?thesis
    by (subst (1) post_normalize_def) (simp add: 1 2 3 4)
qed

lemma post_filter:
  "filter (\<lambda>c. \<not> is_space c) (post_normalize s) =
   filter (\<lambda>c. \<not> is_space c \<and> c \<noteq> 0x200B) s"
proof -
  have a: "filter (\<lambda>c. \<not> is_space c \<and> c \<noteq> 0x200B) (replace_char 0xA0 0x20 t)
      = filter (\<lambda>c. \<not> is_space c \<and> c \<noteq> 0x200B) t"
    for t by (induction t) (auto simp: replace_char_def is_space_def)
  have b: "filter (\<lambda>c. \<not> is_space c) (remove_char 0x200B t)
      = filter (\<lambda>c. \<not> is_space c \<and> c \<noteq> 0x200B) t"
    for t by (induction t) (auto simp: remove_char_def)
  have "filter (\<lambda>c. \<not> is_space c) (post_normalize s)
      = filter (\<lambda>c. \<not> is_space c) (remove_char 0x200B (replace_char 0xA0 0x20 s))"
    unfolding post_normalize_def by (simp only: strip_filter ws_filter)
  also have "\<dots> = filter (\<lambda>c. \<not> is_space c \<and> c \<noteq> 0x200B) (replace_char 0xA0 0x20 s)"
    by (rule b)
  also have "\<dots> = filter (\<lambda>c. \<not> is_space c \<and> c \<noteq> 0x200B) s"
    by (rule a)
  finally show ?thesis .
qed

text \<open>
  C9.  \<open>clean_text\<close> is not idempotent.  On the three code points U+0065 U+200B
  U+0301 the NFKC pass changes nothing (the zero width space separates the letter
  from the accent); the zero width space is removed after that pass, so the first
  call returns U+0065 U+0301, which is no longer normalised: the second call composes
  it to U+00E9.
\<close>

theorem clean_text_not_idempotent:
  "clean_text nfkc_e_acute (Some [0x65, 0x200B, 0x301]) = [0x65, 0x301]
   \<and> clean_text nfkc_e_acute (Some [0x65, 0x301]) = [0xE9]
   \<and> clean_text nfkc_e_acute (Some (clean_text nfkc_e_acute (Some [0x65, 0x200B, 0x301])))
     \<noteq> clean_text nfkc_e_acute (Some [0x65, 0x200B, 0x301])"
  by (simp add: clean_text_def replace_char_def remove_char_def py_strip_def is_space_def)

text \<open>
  A whitespace run between two strings becomes one U+0020: when \<open>a\<close> does not end and
  \<open>b\<close> does not start with whitespace and \<open>w\<close> is a non-empty string of whitespace,
  the substitution on \<open>a @ w @ b\<close> is the substitution on \<open>a\<close>, one U+0020 and the
  substitution on \<open>b\<close>; and a string without whitespace is left as it is.
\<close>

lemma ws_all_space: "s \<noteq> [] \<Longrightarrow> \<forall>c \<in> set s. is_space c \<Longrightarrow> whitespace_sub (s @ b) =
    32 # whitespace_sub (dropWhile is_space b)"
  by (cases s) (auto simp: dropWhile_append)

lemma ws_run:
  assumes "w \<noteq> []" "\<forall>c \<in> set w. is_space c" "b = [] \<or> \<not> is_space (hd b)"
    "a = [] \<or> \<not> is_space (last a)"
  shows "whitespace_sub (a @ w @ b) = whitespace_sub a @ 32 # whitespace_sub b"
  using assms(4)
proof (induction a rule: whitespace_sub.induct)
  case 1
  have "dropWhile is_space b = b" using assms(3) by (cases b) auto
  then show ?case using ws_all_space[OF assms(1,2), of b] by simp
next
  case (2 c cs)
  show ?case
  proof (cases "is_space c")
    case True
    let ?d = "dropWhile is_space cs"
    have ne: "cs \<noteq> []" using 2(3) True by auto
    have nl: "\<not> is_space (last cs)" using 2(3) ne by simp
    have ex: "last cs \<in> set cs" using ne by simp
    have "\<not> (\<forall>x \<in> set cs. is_space x)" using nl ex by blast
    then have d: "?d \<noteq> []" by (simp add: dropWhile_eq_Nil_conv)
    have "last ?d = last cs" using d by (metis last_appendR takeWhile_dropWhile_id)
    then have l: "?d = [] \<or> \<not> is_space (last ?d)" using nl by simp
    have "dropWhile is_space (cs @ w @ b) = ?d @ w @ b"
      using dropWhile_append1[of "last cs" cs is_space "w @ b"] ex nl by blast
    then show ?thesis using 2(1)[OF True l] True by simp
  next
    case False
    have l: "cs = [] \<or> \<not> is_space (last cs)" using 2(3) by (cases cs) auto
    show ?thesis using 2(2)[OF False l] False by simp
  qed
qed

lemma ws_no_space: "\<forall>c \<in> set s. \<not> is_space c \<Longrightarrow> whitespace_sub s = s"
  by (induction s) auto

text \<open>
  What holds of the normaliser.  For every Unicode normaliser \<open>nfkc\<close> and every input
  \<open>v\<close> (\<open>None\<close> or a string) \<open>clean_text\<close> returns a string (the function has no
  failing path); \<open>None\<close> is treated as the empty string, which is mapped to the empty
  string when the normaliser maps it to itself; in the result whitespace occurs only
  as single U+0020 characters, never first or last, there is no U+00A0 and no U+200B,
  and the non-whitespace characters are those of the normalised input other than
  U+200B, in order; and a second call returns the same string whenever the first
  result is stable under the Unicode normalisation.
\<close>

lemma clean_text_properties:
  "clean_text nfkc None = clean_text nfkc (Some [])
   \<and> (nfkc [] = [] \<longrightarrow> clean_text nfkc (Some []) = [])
   \<and> single_spaced (clean_text nfkc v)
   \<and> (clean_text nfkc v = [] \<or>
        (\<not> is_space (hd (clean_text nfkc v)) \<and> \<not> is_space (last (clean_text nfkc v))))
   \<and> 0xA0 \<notin> set (clean_text nfkc v) \<and> 0x200B \<notin> set (clean_text nfkc v)
   \<and> filter (\<lambda>c. \<not> is_space c) (clean_text nfkc v)
       = filter (\<lambda>c. \<not> is_space c \<and> c \<noteq> 0x200B)
           (nfkc (case v of None \<Rightarrow> [] | Some s \<Rightarrow> s))
   \<and> (nfkc (clean_text nfkc v) = clean_text nfkc v \<longrightarrow>
        clean_text nfkc (Some (clean_text nfkc v)) = clean_text nfkc v)"
proof -
  have e: "post_normalize [] = []"
    by (simp add: post_normalize_def replace_char_def remove_char_def py_strip_def)
  have "clean_text nfkc None = clean_text nfkc (Some [])"
    by (simp add: clean_text_post)
  moreover have "nfkc [] = [] \<longrightarrow> clean_text nfkc (Some []) = []"
    by (simp add: clean_text_post e)
  moreover have "single_spaced (clean_text nfkc v)"
    by (simp add: clean_text_post post_single)
  moreover have "clean_text nfkc v = [] \<or>
      (\<not> is_space (hd (clean_text nfkc v)) \<and> \<not> is_space (last (clean_text nfkc v)))"
    unfolding clean_text_post by (rule post_ends)
  moreover have "0xA0 \<notin> set (clean_text nfkc v)" "0x200B \<notin> set (clean_text nfkc v)"
    using post_no_nbsp post_no_zwsp by (simp_all add: clean_text_post)
  moreover have "filter (\<lambda>c. \<not> is_space c) (clean_text nfkc v)
       = filter (\<lambda>c. \<not> is_space c \<and> c \<noteq> 0x200B)
           (nfkc (case v of None \<Rightarrow> [] | Some s \<Rightarrow> s))"
    unfolding clean_text_post by (rule post_filter)
  moreover have "nfkc (clean_text nfkc v) = clean_text nfkc v \<longrightarrow>
        clean_text nfkc (Some (clean_text nfkc v)) = clean_text nfkc v"
  proof
    assume st: "nfkc (clean_text nfkc v) = clean_text nfkc v"
    have "clean_text nfkc (Some (clean_text nfkc v)) = post_normalize (clean_text nfkc v)"
      by (simp add: clean_text_post[of nfkc "Some (clean_text nfkc v)"] st)
    then show "clean_text nfkc (Some (clean_text nfkc v)) = clean_text nfkc v"
      by (simp add: clean_text_post[of nfkc v] post_idem)
  qed
  ultimately show ?thesis by blast
qed
section \<open>Properties of the FAQ extraction\<close>

lemma upt_Suc_shift: "[0..<Suc n] = 0 # map Suc [0..<n]"
  by (simp add: upt_conv_Cons map_Suc_upt del: upt_Suc)

lemma first_idx_Cons:
  "map (\<lambda>i. (f # fs) ! i)
     (filter (\<lambda>i. key ((f # fs) ! i) \<notin> S \<union> key ` set (take i (f # fs))) [0..<Suc (length fs)])
   = (if key f \<in> S then [] else [f]) @
     map (\<lambda>i. fs ! i)
       (filter (\<lambda>i. key (fs ! i) \<notin> insert (key f) S \<union> key ` set (take i fs)) [0..<length fs])"
proof -
  have p: "(key x \<notin> S \<union> insert (key f) T) = (key x \<notin> insert (key f) S \<union> T)" for x T
    by auto
  show ?thesis
    by (simp only: upt_Suc_shift filter.simps filter_map comp_def nth_Cons_0 nth_Cons_Suc
          take_0 take_Suc_Cons list.set image_empty image_insert Un_empty_right p
          list.map map_map append_Nil append_Cons split: if_splits)
       simp
qed

lemma dedupe_loop_set_gen:
  "dedupe_loop seen unique faqs =
     unique @ map (\<lambda>i. faqs ! i)
       (filter (\<lambda>i. faq_key (faqs ! i) \<notin> seen \<union> faq_key ` set (take i faqs)) [0..<length faqs])"
proof (induction faqs arbitrary: seen unique)
  case Nil show ?case by simp
next
  case (Cons f fs)
  let ?rest = "map (\<lambda>i. fs ! i)
       (filter (\<lambda>i. faq_key (fs ! i) \<notin> insert (faq_key f) seen \<union> faq_key ` set (take i fs))
          [0..<length fs])"
  have rhs: "map (\<lambda>i. (f # fs) ! i)
       (filter (\<lambda>i. faq_key ((f # fs) ! i) \<notin> seen \<union> faq_key ` set (take i (f # fs)))
          [0..<length (f # fs)])
     = (if faq_key f \<in> seen then [] else [f]) @ ?rest"
    using first_idx_Cons[of f fs faq_key seen] by simp
  show ?case
  proof (cases "faq_key f \<in> seen")
    case True
    then have e: "insert (faq_key f) seen = seen" by auto
    have "dedupe_loop seen unique (f # fs) = dedupe_loop (insert (faq_key f) seen) unique fs"
      using True e by simp
    also have "\<dots> = unique @ ?rest" by (rule Cons)
    finally show ?thesis unfolding rhs using True by simp
  next
    case False
    have "dedupe_loop seen unique (f # fs) = dedupe_loop (insert (faq_key f) seen) (unique @ [f]) fs"
      using False by simp
    also have "\<dots> = (unique @ [f]) @ ?rest" by (rule Cons)
    finally show ?thesis unfolding rhs using False by simp
  qed
qed

lemma dedupe_first: "dedupe_loop {} [] faqs = first_occurrences faq_key faqs"
  by (simp add: dedupe_loop_set_gen first_occurrences_def)

lemma first_occurrences_distinct: "distinct (map key (first_occurrences key xs))"
proof -
  let ?I = "filter (\<lambda>i. key (xs ! i) \<notin> key ` set (take i xs)) [0..<length xs]"
  have inj: "inj_on (\<lambda>i. key (xs ! i)) (set ?I)"
  proof (rule inj_onI)
    fix i j assume i: "i \<in> set ?I" and j: "j \<in> set ?I" and e: "key (xs ! i) = key (xs ! j)"
    have lt: "False" if "a < b" "b < length xs" "key (xs ! b) \<notin> key ` set (take b xs)"
        "key (xs ! a) = key (xs ! b)" for a b
    proof -
      have "take b xs ! a = xs ! a" "a < length (take b xs)" using that(1,2) by simp_all
      then have "xs ! a \<in> set (take b xs)" by (metis nth_mem)
      then have "key (xs ! a) \<in> key ` set (take b xs)" by (rule imageI)
      then show False using that(3,4) by simp
    qed
    show "i = j"
    proof (rule ccontr)
      assume "i \<noteq> j"
      then consider "i < j" | "j < i" by linarith
      then show False
      proof cases
        case 1
        have "j < length xs" "key (xs ! j) \<notin> key ` set (take j xs)" using j by auto
        then show False using lt[OF 1 _ _ e] by blast
      next
        case 2
        have "i < length xs" "key (xs ! i) \<notin> key ` set (take i xs)" using i by auto
        then show False using lt[OF 2 _ _ e[symmetric]] by blast
      qed
    qed
  qed
  have d: "distinct ?I" by (rule distinct_filter) simp
  have "map key (first_occurrences key xs) = map (\<lambda>i. key (xs ! i)) ?I"
    unfolding first_occurrences_def by (simp only: map_map comp_def)
  moreover have "distinct (map (\<lambda>i. key (xs ! i)) ?I)"
    using d inj by (simp only: distinct_map)
  ultimately show ?thesis by simp
qed

lemma first_occurrences_keys: "key ` set (first_occurrences key xs) = key ` set xs"
proof
  show "key ` set (first_occurrences key xs) \<subseteq> key ` set xs"
    by (auto simp: first_occurrences_def)
next
  show "key ` set xs \<subseteq> key ` set (first_occurrences key xs)"
  proof
    fix k assume "k \<in> key ` set xs"
    then obtain j where j: "j < length xs" "key (xs ! j) = k" by (auto simp: in_set_conv_nth)
    define i where "i = (LEAST n. n < length xs \<and> key (xs ! n) = k)"
    have i: "i < length xs \<and> key (xs ! i) = k"
      unfolding i_def by (rule LeastI[of _ j]) (use j in simp)
    have least: "\<not> (n < length xs \<and> key (xs ! n) = k)" if "n < i" for n
      using that not_less_Least unfolding i_def by blast
    have "key (xs ! i) \<notin> key ` set (take i xs)"
    proof
      assume "key (xs ! i) \<in> key ` set (take i xs)"
      then obtain n where "n < i" "n < length xs" "key (xs ! n) = key (xs ! i)"
        by (auto simp: in_set_conv_nth)
      then show False using least[of n] i by simp
    qed
    then have "xs ! i \<in> set (first_occurrences key xs)"
      using i by (auto simp: first_occurrences_def)
    then show "k \<in> key ` set (first_occurrences key xs)" using i by auto
  qed
qed


lemma nx_accordion_item_shape:
  "nx_accordion_item nfkc li = Some faq \<Longrightarrow>
     \<exists>q a. faq = [(lit ''question'', q), (lit ''answer'', a)] \<and> a \<noteq> []"
  unfolding nx_accordion_item_def Let_def
  by (auto split: option.splits if_splits)

lemma fallback_node_shape:
  "fallback_node nfkc node = Some faq \<Longrightarrow>
     \<exists>q a. faq = [(lit ''question'', q), (lit ''answer'', a)] \<and> q \<noteq> [] \<and> 0x3F \<in> set q \<and> a \<noteq> []"
  unfolding fallback_node_def Let_def
  by (auto split: option.splits if_splits)

lemma map_filter_Some: "x \<in> set (List.map_filter f xs) \<Longrightarrow> \<exists>y \<in> set xs. f y = Some x"
  by (auto simp: List.map_filter_def)

lemma nx_accordion_faqs_shape:
  "faq \<in> set (nx_accordion_faqs nfkc soup) \<Longrightarrow>
     \<exists>q a. faq = [(lit ''question'', q), (lit ''answer'', a)] \<and> a \<noteq> []"
  unfolding nx_accordion_faqs_def
  by (auto dest!: map_filter_Some nx_accordion_item_shape)

lemma fallback_faqs_shape:
  "faq \<in> set (fallback_faqs nfkc soup) \<Longrightarrow>
     \<exists>q a. faq = [(lit ''question'', q), (lit ''answer'', a)] \<and> q \<noteq> [] \<and> 0x3F \<in> set q \<and> a \<noteq> []"
  unfolding fallback_faqs_def
  by (auto dest!: map_filter_Some fallback_node_shape)



lemma first_occurrences_inj:
  assumes "inj_on key (set xs)"
  shows "first_occurrences key xs = first_occurrences (\<lambda>x. x) xs"
proof -
  have "(key (xs ! i) \<notin> key ` set (take i xs)) = (xs ! i \<notin> (\<lambda>x. x) ` set (take i xs))"
    if "i \<in> set [0..<length xs]" for i
  proof -
    have m: "xs ! i \<in> set xs" using that by simp
    have t: "set (take i xs) \<subseteq> set xs" by (rule set_take_subset)
    show ?thesis using inj_on_image_mem_iff[OF assms m t] by simp
  qed
  then have "filter (\<lambda>i. key (xs ! i) \<notin> key ` set (take i xs)) [0..<length xs]
           = filter (\<lambda>i. xs ! i \<notin> (\<lambda>x. x) ` set (take i xs)) [0..<length xs]"
    by (rule filter_cong[OF refl])
  then show ?thesis unfolding first_occurrences_def by (rule arg_cong)
qed

lemma faq_key_entry:
  "faq_key [(lit ''question'', q), (lit ''answer'', a)] = (Some q, Some a)"
  by (simp add: faq_key_def)

lemma faq_key_inj:
  assumes "\<And>faq. faq \<in> set xs \<Longrightarrow> \<exists>q a. faq = [(lit ''question'', q), (lit ''answer'', a)]"
  shows "inj_on faq_key (set xs)"
proof (rule inj_onI)
  fix f g assume f: "f \<in> set xs" and g: "g \<in> set xs" and e: "faq_key f = faq_key g"
  obtain q a where 1: "f = [(lit ''question'', q), (lit ''answer'', a)]" using assms[OF f] by blast
  obtain r b where 2: "g = [(lit ''question'', r), (lit ''answer'', b)]" using assms[OF g] by blast
  show "f = g" using e unfolding 1 2 faq_key_entry by simp
qed

lemma dedupe_entries:
  assumes "\<And>faq. faq \<in> set xs \<Longrightarrow> \<exists>q a. faq = [(lit ''question'', q), (lit ''answer'', a)]"
  shows "dedupe_loop {} [] xs = first_occurrences (\<lambda>faq. faq) xs"
    and "distinct (dedupe_loop {} [] xs)"
    and "set (dedupe_loop {} [] xs) = set xs"
proof -
  show 1: "dedupe_loop {} [] xs = first_occurrences (\<lambda>faq. faq) xs"
    using first_occurrences_inj[OF faq_key_inj[OF assms]] by (simp add: dedupe_first)
  show "distinct (dedupe_loop {} [] xs)"
    using first_occurrences_distinct[of "\<lambda>faq. faq" xs] unfolding 1 by simp
  show "set (dedupe_loop {} [] xs) = set xs"
    using first_occurrences_keys[of "\<lambda>faq. faq" xs] unfolding 1 by simp
qed

lemma nx_accordion_faqs_entry:
  "faq \<in> set (nx_accordion_faqs nfkc soup) \<Longrightarrow>
     \<exists>q a. faq = [(lit ''question'', q), (lit ''answer'', a)]"
  using nx_accordion_faqs_shape by blast

lemma fallback_faqs_entry:
  "faq \<in> set (fallback_faqs nfkc soup) \<Longrightarrow>
     \<exists>q a. faq = [(lit ''question'', q), (lit ''answer'', a)]"
  using fallback_faqs_shape by blast

lemma accordion_dedupe:
  "extract_faqs_from_nx_accordion nfkc soup = dedupe_loop {} [] (nx_accordion_faqs nfkc soup)"
  by (simp add: extract_faqs_from_nx_accordion_def nx_accordion_faqs_def)

text \<open>
  C8.  For every list of (question, answer) pairs, the deduplication loop on the
  entries made of them returns the entries that occur in no earlier position, in the
  order of the list: the output has no entry twice and has exactly the entries of the
  input.  Each of the two strategies returns this for the list of entries it
  extracted, and so does \<open>extract_faqs\<close>.
\<close>

theorem faq_dedupe_first_occurrence:
  "dedupe_loop {} [] (map (\<lambda>(q, a). [(lit ''question'', q), (lit ''answer'', a)]) qas)
     = first_occurrences (\<lambda>faq. faq)
         (map (\<lambda>(q, a). [(lit ''question'', q), (lit ''answer'', a)]) qas)
   \<and> distinct (dedupe_loop {} []
        (map (\<lambda>(q, a). [(lit ''question'', q), (lit ''answer'', a)]) qas))
   \<and> set (dedupe_loop {} [] (map (\<lambda>(q, a). [(lit ''question'', q), (lit ''answer'', a)]) qas))
     = set (map (\<lambda>(q, a). [(lit ''question'', q), (lit ''answer'', a)]) qas)
   \<and> extract_faqs_from_nx_accordion nfkc soup
     = first_occurrences (\<lambda>faq. faq) (nx_accordion_faqs nfkc soup)
   \<and> distinct (extract_faqs_from_nx_accordion nfkc soup)
   \<and> set (extract_faqs_from_nx_accordion nfkc soup) = set (nx_accordion_faqs nfkc soup)
   \<and> extract_faqs_fallback nfkc soup = first_occurrences (\<lambda>faq. faq) (fallback_faqs nfkc soup)
   \<and> distinct (extract_faqs_fallback nfkc soup)
   \<and> set (extract_faqs_fallback nfkc soup) = set (fallback_faqs nfkc soup)
   \<and> distinct (extract_faqs nfkc soup)"
proof -
  let ?xs = "map (\<lambda>(q, a). [(lit ''question'', q), (lit ''answer'', a)]) qas"
  have s: "\<exists>q a. faq = [(lit ''question'', q), (lit ''answer'', a)]" if "faq \<in> set ?xs" for faq
    using that by auto
  have g: "dedupe_loop {} [] ?xs = first_occurrences (\<lambda>faq. faq) ?xs"
    "distinct (dedupe_loop {} [] ?xs)" "set (dedupe_loop {} [] ?xs) = set ?xs"
    using dedupe_entries[of ?xs] s by blast+
  have a: "extract_faqs_from_nx_accordion nfkc soup
       = first_occurrences (\<lambda>faq. faq) (nx_accordion_faqs nfkc soup)"
    "distinct (extract_faqs_from_nx_accordion nfkc soup)"
    "set (extract_faqs_from_nx_accordion nfkc soup) = set (nx_accordion_faqs nfkc soup)"
    unfolding accordion_dedupe
    using dedupe_entries[of "nx_accordion_faqs nfkc soup"] nx_accordion_faqs_entry[of _ nfkc soup]
    by blast+
  have b: "extract_faqs_fallback nfkc soup
       = first_occurrences (\<lambda>faq. faq) (fallback_faqs nfkc soup)"
    "distinct (extract_faqs_fallback nfkc soup)"
    "set (extract_faqs_fallback nfkc soup) = set (fallback_faqs nfkc soup)"
    unfolding extract_faqs_fallback_def
    using dedupe_entries[of "fallback_faqs nfkc soup"] fallback_faqs_entry[of _ nfkc soup]
    by blast+
  have c: "distinct (extract_faqs nfkc soup)"
    using a(2) b(2) by (simp add: extract_faqs_def Let_def)
  show ?thesis using g a b c by blast
qed


lemma is_space_simps:
  "\<not> is_space 0x65" "\<not> is_space 0x3F" "\<not> is_space 0xE9" "\<not> is_space 0x301" "is_space 0x20"
  by (simp_all add: is_space_def)


lemma ct_e: "clean_text nfkc_e_acute (Some [0x65]) = [0x65]"
  by (simp add: clean_text_def replace_char_def remove_char_def py_strip_def is_space_simps)




lemma ct_eq: "clean_text nfkc_e_acute (Some [0x65, 0x3F]) = [0x65, 0x3F]"
  by (simp add: clean_text_def replace_char_def remove_char_def py_strip_def is_space_simps)

lemma fallback_node_1:
  "fallback_node nfkc_e_acute ([0x65, 0x3F], Some [0x65])
     = Some [(lit ''question'', [0x65, 0x3F]), (lit ''answer'', [0x65])]"
  by (simp add: fallback_node_def ct_eq ct_e)







lemma ct_ee: "clean_text nfkc_e_acute (Some [0x65, 0x65]) = [0x65, 0x65]"
  by (simp add: clean_text_def replace_char_def remove_char_def py_strip_def is_space_simps)

lemma fallback_node_3:
  "fallback_node nfkc_e_acute ([0x65, 0x3F], Some [0x65, 0x65])
     = Some [(lit ''question'', [0x65, 0x3F]), (lit ''answer'', [0x65, 0x65])]"
  by (simp add: fallback_node_def ct_eq ct_ee)

lemma dedupe_eval:
  "dedupe_loop {} []
     [[(lit ''question'', [0x65, 0x3F]), (lit ''answer'', [0x65])],
      [(lit ''question'', [0x65, 0x3F]), (lit ''answer'', [0x65, 0x65])],
      [(lit ''question'', [0x65, 0x3F]), (lit ''answer'', [0x65])]]
   = [[(lit ''question'', [0x65, 0x3F]), (lit ''answer'', [0x65])],
      [(lit ''question'', [0x65, 0x3F]), (lit ''answer'', [0x65, 0x65])]]"
  by (simp add: faq_key_entry)

lemma repeated_faqs_eval:
  "fallback_faqs nfkc_e_acute repeated_heading_page
     = [[(lit ''question'', [0x65, 0x3F]), (lit ''answer'', [0x65])],
        [(lit ''question'', [0x65, 0x3F]), (lit ''answer'', [0x65, 0x65])],
        [(lit ''question'', [0x65, 0x3F]), (lit ''answer'', [0x65])]]"
  by (simp add: fallback_faqs_def repeated_heading_page_def
      List.map_filter_def fallback_node_1 fallback_node_3)

lemma repeated_eval:
  "extract_faqs_fallback nfkc_e_acute repeated_heading_page
     = [[(lit ''question'', [0x65, 0x3F]), (lit ''answer'', [0x65])],
        [(lit ''question'', [0x65, 0x3F]), (lit ''answer'', [0x65, 0x65])]]"
  unfolding extract_faqs_fallback_def repeated_faqs_eval by (rule dedupe_eval)

text \<open>C8 on the page with the heading "e?" three times, followed by "e", "ee" and "e":
  the two distinct pairs, which have the same question, are both kept, in the order
  of their first occurrence, and the repeated pair is dropped.\<close>

theorem faq_dedupe_first_occurrence_witness:
  "extract_faqs_fallback nfkc_e_acute repeated_heading_page
     = [[(lit ''question'', [0x65, 0x3F]), (lit ''answer'', [0x65])],
        [(lit ''question'', [0x65, 0x3F]), (lit ''answer'', [0x65, 0x65])]]
   \<and> fallback_faqs nfkc_e_acute repeated_heading_page
     = [[(lit ''question'', [0x65, 0x3F]), (lit ''answer'', [0x65])],
        [(lit ''question'', [0x65, 0x3F]), (lit ''answer'', [0x65, 0x65])],
        [(lit ''question'', [0x65, 0x3F]), (lit ''answer'', [0x65])]]"
  using faq_dedupe_first_occurrence[of "[]" nfkc_e_acute repeated_heading_page]
  by (simp only: repeated_eval repeated_faqs_eval simp_thms)
end
